theory Spec2Isabelle
  imports Complex_Main "HOL-Library.Sublist"
begin

section \<open>Values\<close>

text \<open>
  The viewer is JavaScript. A value read from a row or handed to the classifier is
  \<open>undefined\<close> (the property is absent), \<open>null\<close> (no measurement) or a number. The
  classifier, the layers and the distribution are modelled on finite numbers, written as
  rationals (\<open>jsval\<close>): every comparison of the classifier against one of its constants
  (0, 0.5, 1, 1.5, 2, 2.5, 3, ...) is exact on doubles, so its decision trees are the
  source's own. The rows the parsers build may also hold an infinity, which \<open>parseFloat\<close>
  reads from the word \<open>Infinity\<close> and from a numeral too large for a double; their values
  are of type \<open>number\<close>.
\<close>

datatype 'n jsvalue = Undefined | Null | Num 'n

type_synonym jsval = "rat jsvalue"

text \<open>
  A number of the language: a finite value, an infinity or NaN. The two zeros are one
  value here. The operations below are those of IEEE 754 with the finite results exact;
  \<open>rounded\<close> rounds a finite result to the nearest double, so the operation of the
  language is \<open>rounded\<close> after the exact one. A quotient by zero is taken by the positive
  zero (the only divisor of the source that can be zero is a difference of two equal
  integers).
\<close>

datatype number = Fin rat | PosInf | NegInf | NaN

fun nneg :: "number \<Rightarrow> number" where
  "nneg (Fin x) = Fin (- x)"
| "nneg PosInf = NegInf"
| "nneg NegInf = PosInf"
| "nneg NaN = NaN"

fun is_neg :: "number \<Rightarrow> bool" where
  "is_neg (Fin x) = (x < 0)"
| "is_neg NegInf = True"
| "is_neg _ = False"

fun nadd :: "number \<Rightarrow> number \<Rightarrow> number" where
  "nadd (Fin x) (Fin y) = Fin (x + y)"
| "nadd NaN _ = NaN"
| "nadd _ NaN = NaN"
| "nadd PosInf NegInf = NaN"
| "nadd NegInf PosInf = NaN"
| "nadd PosInf _ = PosInf"
| "nadd _ PosInf = PosInf"
| "nadd NegInf _ = NegInf"
| "nadd _ NegInf = NegInf"

definition nsub :: "number \<Rightarrow> number \<Rightarrow> number" where
  "nsub a b = nadd a (nneg b)"

fun nmul :: "number \<Rightarrow> number \<Rightarrow> number" where
  "nmul (Fin x) (Fin y) = Fin (x * y)"
| "nmul NaN _ = NaN"
| "nmul _ NaN = NaN"
| "nmul a b =
     (if a = Fin 0 \<or> b = Fin 0 then NaN
      else if is_neg a = is_neg b then PosInf else NegInf)"

fun ndiv :: "number \<Rightarrow> number \<Rightarrow> number" where
  "ndiv (Fin x) (Fin y) =
     (if y = 0 then (if x = 0 then NaN else if 0 < x then PosInf else NegInf)
      else Fin (x / y))"
| "ndiv NaN _ = NaN"
| "ndiv _ NaN = NaN"
| "ndiv (Fin x) _ = Fin 0"
| "ndiv a (Fin y) = (if is_neg a = (y < 0) then PosInf else NegInf)"
| "ndiv _ _ = NaN"

fun nlt :: "number \<Rightarrow> number \<Rightarrow> bool" where
  "nlt (Fin x) (Fin y) = (x < y)"
| "nlt NaN _ = False"
| "nlt _ NaN = False"
| "nlt _ NegInf = False"
| "nlt PosInf _ = False"
| "nlt _ _ = True"

definition nle :: "number \<Rightarrow> number \<Rightarrow> bool" where
  "nle a b = (nlt a b \<or> (a = b \<and> a \<noteq> NaN))"

text \<open>
  Rounding to the nearest double, ties to the even significand. \<open>exponent2 x\<close> is the
  binary exponent of \<open>x\<close> (\<open>2 ^ e \<le> \<bar>x\<bar> < 2 ^ (e + 1)\<close>); a double has 53 significant bits
  and no exponent below \<open>-1022\<close>, so its last bit is worth
  \<open>2 ^ (max e (-1022) - 52)\<close>; what rounds to \<open>2 ^ 1024\<close> or beyond is an infinity.
\<close>

definition round_even :: "rat \<Rightarrow> int" where
  "round_even x =
     (let f = \<lfloor>x\<rfloor>; r = x - of_int f
      in if r < 1 / 2 then f else if 1 / 2 < r then f + 1
         else if even f then f else f + 1)"

function log2_up :: "rat \<Rightarrow> int" where
  "log2_up x = (if x < 2 then 0 else log2_up (x / 2) + 1)"
  by pat_completeness auto
termination
proof (relation "measure (\<lambda>x. nat \<lfloor>x\<rfloor>)")
  show "wf (measure (\<lambda>x::rat. nat \<lfloor>x\<rfloor>))" by simp
next
  fix x :: rat
  assume "\<not> x < 2"
  then have "1 \<le> x" by simp
  then have "1 \<le> \<lfloor>x\<rfloor>" by simp
  then have n: "(1::rat) \<le> of_int \<lfloor>x\<rfloor>" by linarith
  have "x < of_int \<lfloor>x\<rfloor> + 1" by linarith
  with n have "x / 2 < of_int \<lfloor>x\<rfloor>" by linarith
  then have "\<lfloor>x / 2\<rfloor> < \<lfloor>x\<rfloor>" by (simp only: floor_less_iff)
  moreover from \<open>1 \<le> x\<close> have "0 < \<lfloor>x\<rfloor>" by simp
  ultimately have "nat \<lfloor>x / 2\<rfloor> < nat \<lfloor>x\<rfloor>" by linarith
  then show "(x / 2, x) \<in> measure (\<lambda>x. nat \<lfloor>x\<rfloor>)" by (simp only: in_measure)
qed

function log2_down :: "rat \<Rightarrow> int" where
  "log2_down x = (if x \<le> 0 \<or> 1 \<le> x then 0 else log2_down (2 * x) - 1)"
  by pat_completeness auto
termination
proof (relation "measure (\<lambda>x. nat \<lfloor>1 / x\<rfloor>)")
  show "wf (measure (\<lambda>x::rat. nat \<lfloor>1 / x\<rfloor>))" by simp
next
  fix x :: rat
  assume "\<not> (x \<le> 0 \<or> 1 \<le> x)"
  then have x: "0 < x" "x < 1" by simp_all
  define u where "u = 1 / x"
  from x have u: "1 \<le> u" by (simp add: u_def)
  then have "1 \<le> \<lfloor>u\<rfloor>" by simp
  then have n: "(1::rat) \<le> of_int \<lfloor>u\<rfloor>" by linarith
  have "u < of_int \<lfloor>u\<rfloor> + 1" by linarith
  with n have "u / 2 < of_int \<lfloor>u\<rfloor>" by linarith
  then have "\<lfloor>u / 2\<rfloor> < \<lfloor>u\<rfloor>" by (simp only: floor_less_iff)
  moreover have "1 / (2 * x) = u / 2" by (simp add: u_def)
  moreover from u have "0 < \<lfloor>u\<rfloor>" by simp
  ultimately have "nat \<lfloor>1 / (2 * x)\<rfloor> < nat \<lfloor>u\<rfloor>" by linarith
  then have "nat \<lfloor>1 / (2 * x)\<rfloor> < nat \<lfloor>1 / x\<rfloor>" by (simp only: u_def)
  then show "(2 * x, x) \<in> measure (\<lambda>x. nat \<lfloor>1 / x\<rfloor>)" by (simp only: in_measure)
qed

definition exponent2 :: "rat \<Rightarrow> int" where
  "exponent2 x = (if 1 \<le> \<bar>x\<bar> then log2_up \<bar>x\<bar> else log2_down \<bar>x\<bar>)"

definition pow2 :: "int \<Rightarrow> rat" where
  "pow2 e = (if 0 \<le> e then 2 ^ nat e else 1 / 2 ^ nat (- e))"

definition round64 :: "rat \<Rightarrow> rat" where
  "round64 x =
     (let q = pow2 (max (exponent2 x) (- 1022) - 52)
      in of_int (round_even (x / q)) * q)"

definition double :: "rat \<Rightarrow> number" where
  "double x =
     (let r = round64 x
      in if 2 ^ 1024 \<le> \<bar>r\<bar> then (if 0 < r then PosInf else NegInf) else Fin r)"

fun rounded :: "number \<Rightarrow> number" where
  "rounded (Fin x) = double x"
| "rounded a = a"
section \<open>Robertson classification (class Robertson)\<close>

text \<open>
  A soil zone is an object \<open>{ zone, name, color }\<close>; \<open>ROBERTSON_ZONES\<close> is the fixed
  table of nine, and \<open>classify\<close> returns one of its elements by index.
\<close>

record SoilZone =
  zone :: nat
  name :: string
  color :: string

definition ROBERTSON_ZONES :: "SoilZone list" where
  "ROBERTSON_ZONES =
   [\<lparr>zone = 1, name = ''Gevoelig fijnkorrelig'', color = ''#00BCD4''\<rparr>,
    \<lparr>zone = 2, name = ''Organisch / veen'', color = ''#795548''\<rparr>,
    \<lparr>zone = 3, name = ''Klei'', color = ''#4CAF50''\<rparr>,
    \<lparr>zone = 4, name = ''Silt mengsels'', color = ''#8BC34A''\<rparr>,
    \<lparr>zone = 5, name = ''Zand mengsels'', color = ''#FFC107''\<rparr>,
    \<lparr>zone = 6, name = ''Zand'', color = ''#FF9800''\<rparr>,
    \<lparr>zone = 7, name = ''Grof zand / grind'', color = ''#FF5722''\<rparr>,
    \<lparr>zone = 8, name = ''Zeer vast zand/klei'', color = ''#F44336''\<rparr>,
    \<lparr>zone = 9, name = ''Zeer vast fijnkorrelig'', color = ''#9C27B0''\<rparr>]"

text \<open>
  \<open>Robertson.classify(qc, rf)\<close>: null for a missing input, for \<open>qc <= 0\<close> and for
  \<open>rf < 0\<close>; otherwise the decision tree over the six \<open>qc\<close> bands, in the source's order.
\<close>

fun classify :: "jsval \<Rightarrow> jsval \<Rightarrow> SoilZone option" where
  "classify (Num qc) (Num rf) =
     (if qc \<le> 0 \<or> rf < 0 then None
      else if qc > 25 then
        (if rf < 1 then Some (ROBERTSON_ZONES ! 6)
         else Some (ROBERTSON_ZONES ! 7))
      else if qc > 10 then
        (if rf < 1 / 2 then Some (ROBERTSON_ZONES ! 6)
         else if rf < 3 / 2 then Some (ROBERTSON_ZONES ! 5)
         else if rf < 3 then Some (ROBERTSON_ZONES ! 4)
         else Some (ROBERTSON_ZONES ! 7))
      else if qc > 5 then
        (if rf < 1 then Some (ROBERTSON_ZONES ! 5)
         else if rf < 2 then Some (ROBERTSON_ZONES ! 4)
         else if rf < 4 then Some (ROBERTSON_ZONES ! 3)
         else if rf < 6 then Some (ROBERTSON_ZONES ! 2)
         else Some (ROBERTSON_ZONES ! 8))
      else if qc > 2 then
        (if rf < 1 then Some (ROBERTSON_ZONES ! 4)
         else if rf < 5 / 2 then Some (ROBERTSON_ZONES ! 3)
         else if rf < 5 then Some (ROBERTSON_ZONES ! 2)
         else if rf < 8 then Some (ROBERTSON_ZONES ! 1)
         else Some (ROBERTSON_ZONES ! 0))
      else if qc > 1 / 2 then
        (if rf < 3 / 2 then Some (ROBERTSON_ZONES ! 3)
         else if rf < 4 then Some (ROBERTSON_ZONES ! 2)
         else if rf < 8 then Some (ROBERTSON_ZONES ! 1)
         else Some (ROBERTSON_ZONES ! 0))
      else
        (if rf < 5 then Some (ROBERTSON_ZONES ! 2)
         else if rf < 10 then Some (ROBERTSON_ZONES ! 1)
         else Some (ROBERTSON_ZONES ! 0)))"
| "classify _ _ = None"

text \<open>An input is missing when it is \<open>null\<close> or \<open>undefined\<close>.\<close>

definition missing :: "jsval \<Rightarrow> bool" where
  "missing v = (v = Null \<or> v = Undefined)"

text \<open>
  A row of a parsed record is an object keyed by column key. Reading a property gives
  \<open>undefined\<close> when the row has no such entry, so a row is the function from keys to
  what a read returns; \<open>{}\<close> is \<open>empty_row\<close> and \<open>row[k] = v\<close> is \<open>row(k := v)\<close>.
\<close>

type_synonym row = "string \<Rightarrow> jsval"

definition empty_row :: row where
  "empty_row = (\<lambda>k. Undefined)"

text \<open>
  \<open>ToNumber\<close> on the values of this model: \<open>null\<close> converts to 0. \<open>undefined\<close>
  converts to NaN, which the model does not have; no row that passes the filter of
  \<open>classifyDataset\<close> reaches that case (\<open>classifyDataset_depths_numeric\<close> below).
\<close>

fun to_number :: "jsval \<Rightarrow> rat" where
  "to_number (Num x) = x"
| "to_number Null = 0"
| "to_number Undefined = 0"

definition Math_abs :: "jsval \<Rightarrow> rat" where
  "Math_abs v = \<bar>to_number v\<bar>"

text \<open>
  A classified point \<open>{ depth, zone }\<close>, a layer \<open>{ startDepth, endDepth, zone }\<close> and a
  distribution entry \<open>{ zone, thickness, percentage }\<close>. The three \<open>zone\<close> fields hold a
  zone object (or null, for a point); they are named \<open>point_zone\<close>, \<open>layer_zone\<close> and
  \<open>dist_zone\<close> here, \<open>zone\<close> being the number inside a zone object.
\<close>

record ClassifiedPoint =
  depth :: rat
  point_zone :: "SoilZone option"

record Layer =
  startDepth :: rat
  endDepth :: rat
  layer_zone :: SoilZone

record DistributionEntry =
  dist_zone :: SoilZone
  thickness :: rat
  percentage :: rat

text \<open>
  \<open>Robertson.classifyDataset(data)\<close>: a filter, then a map. The filter reads \<open>depth\<close>
  unless it is \<open>undefined\<close>, \<open>length\<close> otherwise, and keeps the row when what it read is
  neither \<open>null\<close> nor \<open>undefined\<close>. The map takes \<open>Math.abs(row.depth)\<close> when \<open>depth\<close>
  is not \<open>undefined\<close> and \<open>row.length\<close> as it is otherwise.
\<close>

definition depth_indicator :: "row \<Rightarrow> jsval" where
  "depth_indicator r = (if r ''depth'' \<noteq> Undefined then r ''depth'' else r ''length'')"

definition has_depth_indicator :: "row \<Rightarrow> bool" where
  "has_depth_indicator r = (depth_indicator r \<noteq> Null \<and> depth_indicator r \<noteq> Undefined)"

definition classifyRow :: "row \<Rightarrow> ClassifiedPoint" where
  "classifyRow r =
     \<lparr>depth = (if r ''depth'' \<noteq> Undefined then Math_abs (r ''depth'')
                else to_number (r ''length'')),
      point_zone = classify (r ''qc'') (r ''rf'')\<rparr>"

definition classifyDataset :: "row list \<Rightarrow> ClassifiedPoint list" where
  "classifyDataset data = map classifyRow (filter has_depth_indicator data)"

text \<open>
  \<open>Robertson.mergeLayers(classifications, minThickness)\<close>. The points with a zone are kept
  together with their zone (\<open>valid\<close>), sorted by depth (\<open>Array.prototype.sort\<close> is stable,
  as \<open>sort_key\<close> is), and walked once: \<open>buildLayers\<close> is the loop that extends \<open>current\<close>
  while the zone number stays the same and pushes it when the zone changes.
\<close>

definition valid_points :: "ClassifiedPoint list \<Rightarrow> (rat \<times> SoilZone) list" where
  "valid_points classifications =
     concat (map (\<lambda>c. case point_zone c of None \<Rightarrow> [] | Some z \<Rightarrow> [(depth c, z)])
       classifications)"

fun buildLayers :: "Layer list \<Rightarrow> Layer \<Rightarrow> (rat \<times> SoilZone) list \<Rightarrow> Layer list" where
  "buildLayers layers current [] = layers @ [current]"
| "buildLayers layers current ((d, z) # ps) =
     (if zone z = zone (layer_zone current)
      then buildLayers layers (current\<lparr>endDepth := d\<rparr>) ps
      else buildLayers (layers @ [current])
             \<lparr>startDepth = d, endDepth = d, layer_zone = z\<rparr> ps)"

text \<open>
  The second loop: a layer thinner than \<open>minThickness\<close> is not pushed; the end depth of
  the last layer of \<open>merged\<close> is set to its end depth instead. The thickness is the
  difference of the two depths as the doubles subtract, so it is rounded: 0.3 - 0.1 is
  0.19999999999999998, which is below 0.2, and 0.25 - 0.05 is 0.2, which is not. A depth
  or a thickness written as a rational stands for the double nearest to it, as a numeral
  of the source does.
\<close>

definition layer_thickness :: "Layer \<Rightarrow> number" where
  "layer_thickness l = rounded (nsub (double (endDepth l)) (double (startDepth l)))"

fun absorbThin :: "rat \<Rightarrow> Layer list \<Rightarrow> Layer list \<Rightarrow> Layer list" where
  "absorbThin minThickness merged [] = merged"
| "absorbThin minThickness merged (l # ls) =
     (if nlt (layer_thickness l) (double minThickness) \<and> length merged > 0
      then absorbThin minThickness
             (butlast merged @ [(last merged)\<lparr>endDepth := endDepth l\<rparr>]) ls
      else absorbThin minThickness (merged @ [l]) ls)"

definition mergeLayers :: "ClassifiedPoint list \<Rightarrow> rat \<Rightarrow> Layer list" where
  "mergeLayers classifications minThickness =
     (if classifications = [] then []
      else if valid_points classifications = [] then []
      else case sort_key fst (valid_points classifications) of
        [] \<Rightarrow> []
      | (d, z) # ps \<Rightarrow>
          (let layers = buildLayers [] \<lparr>startDepth = d, endDepth = d, layer_zone = z\<rparr> ps
           in if minThickness > 0 \<and> length layers > 1
              then absorbThin minThickness [hd layers] (tl layers)
              else layers))"

text \<open>The default of the second parameter.\<close>

definition default_minThickness :: rat where
  "default_minThickness = 1 / 5"

text \<open>
  \<open>Robertson.computeDistribution(layers)\<close>. \<open>totals\<close> is the object keyed by zone number;
  \<open>totals[z] || 0\<close> is \<open>or0 (totals z)\<close>. The thicknesses, their sums and the percentages
  are taken over the rationals here, without the rounding of the doubles.
\<close>

definition or0 :: "rat option \<Rightarrow> rat" where
  "or0 v = (case v of None \<Rightarrow> 0 | Some t \<Rightarrow> t)"

fun sumThickness :: "Layer list \<Rightarrow> (nat \<rightharpoonup> rat) \<Rightarrow> rat \<Rightarrow> (nat \<rightharpoonup> rat) \<times> rat" where
  "sumThickness [] totals totalThickness = (totals, totalThickness)"
| "sumThickness (layer # ls) totals totalThickness =
     (let t = endDepth layer - startDepth layer
      in if t \<le> 0 then sumThickness ls totals totalThickness
         else sumThickness ls
                (totals(zone (layer_zone layer) \<mapsto> or0 (totals (zone (layer_zone layer))) + t))
                (totalThickness + t))"

definition computeDistribution :: "Layer list \<Rightarrow> DistributionEntry list" where
  "computeDistribution layers =
     (if layers = [] then []
      else case sumThickness layers Map.empty 0 of
        (totals, totalThickness) \<Rightarrow>
          if totalThickness = 0 then []
          else sort_key (\<lambda>d. - percentage d)
                 (filter (\<lambda>d. percentage d > 0)
                    (map (\<lambda>z. \<lparr>dist_zone = z,
                                thickness = or0 (totals (zone z)),
                                percentage = or0 (totals (zone z)) / totalThickness * 100\<rparr>)
                       ROBERTSON_ZONES)))"

section \<open>The chart's depth viewport (class CptChart)\<close>

text \<open>
  The part of the renderer's state that the viewport depends on. \<open>setData\<close> computes the
  depth of every row (\<open>depth\<close> when the columns list a \<open>depth\<close> key, \<open>length\<close> otherwise;
  \<open>v != null\<close> excludes both \<open>null\<close> and \<open>undefined\<close>), the full extent
  \<open>[depthMin, depthMax]\<close>, and resets the view to it. The axis maxima, the drawing and the
  hover callback read the viewport and never write it; they are left out.

  The extent is finite. The view and the view a pan started from are numbers: a handler
  that divides by the height of the plot stores an infinity or NaN when that height is
  zero or was never set. The arithmetic of the handlers on finite values is exact here,
  without the rounding of the doubles.
\<close>

record CptChart =
  depths :: "rat option list"
  depthMin :: rat
  depthMax :: rat
  depthViewMin :: number
  depthViewMax :: number
  hoverY :: "rat option"
  isPanning :: bool
  panStartY :: rat
  panStartDepthMin :: number
  panStartDepthMax :: number

text \<open>The state the constructor leaves.\<close>

definition new_chart :: CptChart where
  "new_chart =
     \<lparr>depths = [], depthMin = 0, depthMax = 30, depthViewMin = Fin 0, depthViewMax = Fin 30,
      hoverY = None, isPanning = False, panStartY = 0,
      panStartDepthMin = Fin 0, panStartDepthMax = Fin 0\<rparr>"

definition row_depth :: "bool \<Rightarrow> row \<Rightarrow> rat option" where
  "row_depth hasDepth r =
     (let v = (if hasDepth then r ''depth'' else r ''length'')
      in if v \<noteq> Null \<and> v \<noteq> Undefined then Some (Math_abs v) else None)"

text \<open>\<open>Math.max(...valid)\<close> of a list that is not empty.\<close>

fun Math_max :: "rat list \<Rightarrow> rat" where
  "Math_max [] = 0"
| "Math_max [x] = x"
| "Math_max (x # y # ys) = max x (Math_max (y # ys))"

definition setData :: "row list \<Rightarrow> string list \<Rightarrow> CptChart \<Rightarrow> CptChart" where
  "setData data column_keys c =
     (let hasDepth = (''depth'' \<in> set column_keys);
          ds = map (row_depth hasDepth) data;
          valid = concat (map (\<lambda>d. case d of None \<Rightarrow> [] | Some x \<Rightarrow> [x]) ds);
          dmax = (if valid \<noteq> [] then of_int \<lceil>Math_max valid * (51 / 50) + 1 / 2\<rceil> else 30)
      in c\<lparr>depths := ds, depthMin := 0, depthMax := dmax,
            depthViewMin := Fin 0, depthViewMax := Fin dmax\<rparr>)"

text \<open>
  \<open>_layout\<close>: the plot starts 28 pixels from the top (\<open>plotT\<close>) and ends 4 pixels above
  the bottom of a canvas of height \<open>H\<close> (\<open>plotB\<close>). \<open>H\<close> is what \<open>this.H\<close> holds when a
  handler reads the layout, a parameter of the handler here: \<open>None\<close> when it is still
  \<open>undefined\<close> (no \<open>resize\<close> has met a parent of 10 pixels or more), and the integer
  \<open>resize\<close> stored last otherwise. With \<open>H\<close> undefined, \<open>plotB\<close> and \<open>plotH\<close> are NaN;
  with \<open>H = 32\<close> the plot has height 0.
\<close>

definition plotT :: rat where
  "plotT = 28"

definition plotB :: "int option \<Rightarrow> number" where
  "plotB H = (case H of None \<Rightarrow> NaN | Some h \<Rightarrow> Fin (of_int h - 4))"

definition plotH :: "int option \<Rightarrow> number" where
  "plotH H = nsub (plotB H) (Fin plotT)"

definition y2d :: "CptChart \<Rightarrow> int option \<Rightarrow> rat \<Rightarrow> number" where
  "y2d c H y =
     nadd (depthViewMin c)
       (nmul (ndiv (Fin (y - plotT)) (plotH H)) (nsub (depthViewMax c) (depthViewMin c)))"

text \<open>The handlers. None of them compares the new view with the extent.\<close>

definition onMouseDown :: "int \<Rightarrow> rat \<Rightarrow> CptChart \<Rightarrow> CptChart" where
  "onMouseDown button y c =
     (if button = 0
      then c\<lparr>isPanning := True, panStartY := y,
             panStartDepthMin := depthViewMin c, panStartDepthMax := depthViewMax c\<rparr>
      else c)"

definition onMouseMove :: "int option \<Rightarrow> rat \<Rightarrow> CptChart \<Rightarrow> CptChart" where
  "onMouseMove H y c =
     (if isPanning c then
        (let dy = y - panStartY c;
             dPerPx = ndiv (nsub (panStartDepthMax c) (panStartDepthMin c)) (plotH H)
         in c\<lparr>depthViewMin := nsub (panStartDepthMin c) (nmul (Fin dy) dPerPx),
               depthViewMax := nsub (panStartDepthMax c) (nmul (Fin dy) dPerPx)\<rparr>)
      else c\<lparr>hoverY := Some y\<rparr>)"

definition onMouseLeave :: "CptChart \<Rightarrow> CptChart" where
  "onMouseLeave c = c\<lparr>hoverY := None, isPanning := False\<rparr>"

definition onMouseUp :: "CptChart \<Rightarrow> CptChart" where
  "onMouseUp c = c\<lparr>isPanning := False\<rparr>"

definition onWheel :: "int option \<Rightarrow> rat \<Rightarrow> rat \<Rightarrow> CptChart \<Rightarrow> CptChart" where
  "onWheel H y deltaY c =
     (if nlt (Fin y) (Fin plotT) \<or> nlt (plotB H) (Fin y) then c
      else
        (let d = y2d c H y;
             f = (if deltaY > 0 then Fin (28 / 25) else Fin (1 / (28 / 25)));
             nMin = nsub d (nmul (nsub d (depthViewMin c)) f);
             nMax = nadd d (nmul (nsub (depthViewMax c) d) f)
         in if nlt (nsub nMax nMin) (Fin (1 / 2)) then c
            else c\<lparr>depthViewMin := nMin, depthViewMax := nMax\<rparr>))"

definition zoomIn :: "CptChart \<Rightarrow> CptChart" where
  "zoomIn c =
     (let m = ndiv (nadd (depthViewMin c) (depthViewMax c)) (Fin 2);
          r = ndiv (nsub (depthViewMax c) (depthViewMin c)) (Fin (13 / 10))
      in if nlt r (Fin (1 / 2)) then c
         else c\<lparr>depthViewMin := nsub m (ndiv r (Fin 2)),
                depthViewMax := nadd m (ndiv r (Fin 2))\<rparr>)"

definition zoomOut :: "CptChart \<Rightarrow> CptChart" where
  "zoomOut c =
     (let m = ndiv (nadd (depthViewMin c) (depthViewMax c)) (Fin 2);
          r = nmul (nsub (depthViewMax c) (depthViewMin c)) (Fin (13 / 10))
      in c\<lparr>depthViewMin := nsub m (ndiv r (Fin 2)),
            depthViewMax := nadd m (ndiv r (Fin 2))\<rparr>)"

definition zoomFit :: "CptChart \<Rightarrow> CptChart" where
  "zoomFit c = c\<lparr>depthViewMin := Fin (depthMin c), depthViewMax := Fin (depthMax c)\<rparr>"

text \<open>
  The operations on a chart after \<open>setData\<close>, and a run of them. A pan is a press of the
  primary button followed by moves; \<open>Wheel H y deltaY\<close> zooms in when \<open>deltaY\<close> is not
  positive and out when it is.
\<close>

datatype event =
    MouseDown int rat
  | MouseMove "int option" rat
  | MouseUp
  | MouseLeave
  | Wheel "int option" rat rat
  | ZoomIn
  | ZoomOut
  | ZoomFit

fun handle :: "event \<Rightarrow> CptChart \<Rightarrow> CptChart" where
  "handle (MouseDown button y) c = onMouseDown button y c"
| "handle (MouseMove H y) c = onMouseMove H y c"
| "handle MouseUp c = onMouseUp c"
| "handle MouseLeave c = onMouseLeave c"
| "handle (Wheel H y deltaY) c = onWheel H y deltaY c"
| "handle ZoomIn c = zoomIn c"
| "handle ZoomOut c = zoomOut c"
| "handle ZoomFit c = zoomFit c"

fun run :: "event list \<Rightarrow> CptChart \<Rightarrow> CptChart" where
  "run [] c = c"
| "run (e # es) c = run es (handle e c)"

text \<open>The visible range is a sub-range of the full extent.\<close>

definition view_within_extent :: "CptChart \<Rightarrow> bool" where
  "view_within_extent c =
     (nle (Fin (depthMin c)) (depthViewMin c) \<and> nle (depthViewMin c) (depthViewMax c) \<and>
      nle (depthViewMax c) (Fin (depthMax c)))"

section \<open>Text primitives\<close>

text \<open>
  The text handed to the GEF parser is decoded from a single-byte encoding, so a character
  is a code point below 256. Of JavaScript's white space and line terminators, those in
  that range are TAB, LF, VT, FF, CR, SPACE and NBSP; \<open>trim\<close> and \<open>\s\<close> use this set.
\<close>

definition LF :: char where
  "LF = CHR 0x0A"

definition CR :: char where
  "CR = CHR 0x0D"

definition js_ws :: "char \<Rightarrow> bool" where
  "js_ws c = (c \<in> set [CHR 0x09, CHR 0x0A, CHR 0x0B, CHR 0x0C, CHR 0x0D, CHR 0x20, CHR 0xA0])"

definition trim :: "string \<Rightarrow> string" where
  "trim s = rev (dropWhile js_ws (rev (dropWhile js_ws s)))"

text \<open>\<open>\w\<close> is a letter, a digit or the underscore.\<close>

definition is_digit :: "char \<Rightarrow> bool" where
  "is_digit c = (48 \<le> (of_char c :: nat) \<and> (of_char c :: nat) \<le> 57)"

definition is_word :: "char \<Rightarrow> bool" where
  "is_word c =
     (let n = (of_char c :: nat)
      in (65 \<le> n \<and> n \<le> 90) \<or> (97 \<le> n \<and> n \<le> 122) \<or> is_digit c \<or> c = CHR ''_'')"

text \<open>\<open>toUpperCase\<close>, on the characters a keyword can hold (\<open>\w\<close>).\<close>

definition toUpperCase :: "string \<Rightarrow> string" where
  "toUpperCase s =
     map (\<lambda>c. if 97 \<le> (of_char c :: nat) \<and> (of_char c :: nat) \<le> 122
               then char_of ((of_char c :: nat) - 32) else c) s"


text \<open>
  \<open>s.split(sep)\<close> for a separator string that is not empty: the pieces between the
  occurrences of \<open>sep\<close>, found from the left. \<open>cur\<close> holds the characters of the current
  piece, last first.
\<close>

function split_from :: "string \<Rightarrow> string \<Rightarrow> string \<Rightarrow> string list" where
  "split_from sep cur [] = [rev cur]"
| "split_from sep cur (c # s) =
     (if sep \<noteq> [] \<and> prefix sep (c # s)
      then rev cur # split_from sep [] (drop (length sep) (c # s))
      else split_from sep (c # cur) s)"
  by pat_completeness auto
termination
  by (relation "measure (\<lambda>(sep, cur, s). length s)") auto

definition split :: "string \<Rightarrow> string \<Rightarrow> string list" where
  "split sep s = split_from sep [] s"

text \<open>\<open>s.split(/\s+/)\<close>: the pieces between the runs of white space.\<close>

function split_ws_from :: "string \<Rightarrow> string \<Rightarrow> string list" where
  "split_ws_from cur [] = [rev cur]"
| "split_ws_from cur (c # s) =
     (if js_ws c then rev cur # split_ws_from [] (dropWhile js_ws s)
      else split_ws_from (c # cur) s)"
  by pat_completeness auto
termination
  by (relation "measure (\<lambda>(cur, s). length s)") (auto simp: length_dropWhile_le le_imp_less_Suc)

definition split_ws :: "string \<Rightarrow> string list" where
  "split_ws s = split_ws_from [] s"

text \<open>
  \<open>text.replace(/\r\n/g, '\n').replace(/\r/g, '\n').split('\n')\<close>.
\<close>

fun replace_crlf :: "string \<Rightarrow> string" where
  "replace_crlf [] = []"
| "replace_crlf [c] = [c]"
| "replace_crlf (c # d # s) =
     (if c = CR \<and> d = LF then LF # replace_crlf s else c # replace_crlf (d # s))"

definition replace_cr :: "string \<Rightarrow> string" where
  "replace_cr s = map (\<lambda>c. if c = CR then LF else c) s"

definition text_lines :: "string \<Rightarrow> string list" where
  "text_lines text = split [LF] (replace_cr (replace_crlf text))"

text \<open>
  \<open>parseInt(s, 10)\<close> and \<open>parseFloat(s)\<close>: leading white space is skipped, then the
  longest prefix that is a numeral is read; \<open>parseInt10\<close> gives \<open>None\<close> for NaN.
  \<open>parseFloat\<close> gives the double nearest to the decimal numeral it read, an infinity for
  the word \<open>Infinity\<close> (whatever follows it) and for a numeral too large, and NaN when
  there is neither.
\<close>

definition digits_value :: "string \<Rightarrow> nat" where
  "digits_value ds = foldl (\<lambda>a c. 10 * a + ((of_char c :: nat) - 48)) 0 ds"

fun take_sign :: "string \<Rightarrow> int \<times> string" where
  "take_sign [] = (1, [])"
| "take_sign (c # s) =
     (if c = CHR ''-'' then (- 1, s) else if c = CHR ''+'' then (1, s) else (1, c # s))"

definition parseInt10 :: "string \<Rightarrow> int option" where
  "parseInt10 str =
     (case take_sign (dropWhile js_ws str) of
        (sg, r) \<Rightarrow>
          (let ds = takeWhile is_digit r
           in if ds = [] then None else Some (sg * int (digits_value ds))))"

definition exponent_of :: "string \<Rightarrow> int" where
  "exponent_of r =
     (case r of
        [] \<Rightarrow> 0
      | c # t \<Rightarrow>
          if c = CHR ''e'' \<or> c = CHR ''E'' then
            (case take_sign t of
               (sg, u) \<Rightarrow>
                 (let ds = takeWhile is_digit u
                  in if ds = [] then 0 else sg * int (digits_value ds)))
          else 0)"

definition scale10 :: "rat \<Rightarrow> int \<Rightarrow> rat" where
  "scale10 m e = (if e \<ge> 0 then m * 10 ^ nat e else m / 10 ^ nat (- e))"

definition parseFloat :: "string \<Rightarrow> number" where
  "parseFloat str =
     (case take_sign (dropWhile js_ws str) of
        (sg, r) \<Rightarrow>
          (let ip = takeWhile is_digit r;
               r1 = dropWhile is_digit r;
               fp = (case r1 of [] \<Rightarrow> []
                     | c # t \<Rightarrow> if c = CHR ''.'' then takeWhile is_digit t else []);
               r2 = (case r1 of [] \<Rightarrow> []
                     | c # t \<Rightarrow> if c = CHR ''.'' then dropWhile is_digit t else r1)
           in if prefix ''Infinity'' r then (if sg < 0 then NegInf else PosInf)
              else if ip = [] \<and> fp = [] then NaN
              else double (of_int sg *
                     scale10 (of_nat (digits_value ip)
                              + of_nat (digits_value fp) / 10 ^ length fp)
                       (exponent_of r2))))"

text \<open>The decimal digits of a number, for the template \<open>col_${i + 1}\<close>.\<close>

fun nat_to_string :: "nat \<Rightarrow> string" where
  "nat_to_string n =
     (if n < 10 then [char_of (48 + n)]
      else nat_to_string (n div 10) @ [char_of (48 + n mod 10)])"

definition padStart2 :: "string \<Rightarrow> string" where
  "padStart2 s = replicate (2 - length s) (CHR ''0'') @ s"

section \<open>The records the parsers return\<close>

text \<open>
  A column descriptor. The parsers give read columns an \<open>index\<close> (and the GEF parser a
  \<open>type\<close> and a \<open>voidValue\<close>); a derived column has \<open>{ key, label, unit, computed: true }\<close>
  only, so the other fields are optional. A \<open>type\<close> that is \<open>null\<close> or NaN is \<open>None\<close>; a
  \<open>voidValue\<close> is \<open>None\<close> when \<open>undefined\<close>. A row of a parsed record is keyed by column
  key, as the rows the classifier reads are; its numbers are what \<open>parseFloat\<close> read and
  what was derived from them.
\<close>

type_synonym parsed_row = "string \<Rightarrow> number jsvalue"

definition empty_parsed_row :: parsed_row where
  "empty_parsed_row = (\<lambda>k. Undefined)"

record column =
  index :: "nat option"
  key :: string
  label :: string
  unit :: string
  col_type :: "int option"
  voidValue :: "number option"
  computed :: bool

record FormatRecord =
  header :: "string \<rightharpoonup> string"
  columns :: "column list"
  data :: "parsed_row list"

datatype parse_error =
    NoEOH
  | NoValues

text \<open>
  \<open>NoEOH\<close> is the error \<open>GefParser.parse\<close> throws when no header terminator was found,
  \<open>NoValues\<close> the one \<open>BroXmlParser._parseData\<close> throws when the document has no
  \<open>values\<close> element.
\<close>

definition hasKey :: "column list \<Rightarrow> string \<Rightarrow> bool" where
  "hasKey columnMap k = (\<exists>c \<in> set columnMap. key c = k)"

text \<open>
  \<open>ToNumber\<close> on a value of a parsed row, and \<open>a === b\<close> on two numbers (NaN equals
  nothing).
\<close>

fun to_num :: "number jsvalue \<Rightarrow> number" where
  "to_num (Num x) = x"
| "to_num Null = Fin 0"
| "to_num Undefined = NaN"

definition strict_eq :: "number \<Rightarrow> number \<Rightarrow> bool" where
  "strict_eq a b = (a = b \<and> a \<noteq> NaN)"

text \<open>
  The friction ratio of a row, as both parsers derive it: \<open>fs / qc * 100\<close> unless \<open>qc\<close> or
  \<open>fs\<close> is \<open>null\<close> or \<open>qc\<close> is zero, and \<open>null\<close> then.
\<close>

definition derive_rf :: "parsed_row \<Rightarrow> parsed_row" where
  "derive_rf r =
     (if r ''qc'' \<noteq> Null \<and> r ''fs'' \<noteq> Null \<and> \<not> strict_eq (to_num (r ''qc'')) (Fin 0)
      then r(''rf'' := Num (rounded (nmul (rounded (ndiv (to_num (r ''fs'')) (to_num (r ''qc''))))
                                      (Fin 100))))
      else r(''rf'' := Null))"

definition rf_computed :: column where
  "rf_computed =
     \<lparr>index = None, key = ''rf'', label = ''Wrijvingsgetal (berekend)'', unit = ''%'',
      col_type = None, voidValue = None, computed = True\<rparr>"

section \<open>The GEF parser (class GefParser)\<close>

text \<open>The table from a column's type code to its key, label and unit.\<close>

definition GEF_COLUMN_TYPES :: "int \<Rightarrow> (string \<times> string \<times> string) option" where
  "GEF_COLUMN_TYPES =
     map_of
      [(1, (''length'', ''Sondeerlengte'', ''m'')),
       (2, (''qc'', ''Conusweerstand'', ''MPa'')),
       (3, (''fs'', ''Plaatselijke wrijving'', ''MPa'')),
       (4, (''rf'', ''Wrijvingsgetal'', ''%'')),
       (5, (''u1'', ''Waterspanning u1'', ''MPa'')),
       (6, (''u2'', ''Waterspanning u2'', ''MPa'')),
       (7, (''u3'', ''Waterspanning u3'', ''MPa'')),
       (8, (''inclination'', ''Inclinatie resultant'', ''graden'')),
       (9, (''incl_ns'', ''Inclinatie N-Z'', ''graden'')),
       (10, (''incl_ew'', ''Inclinatie O-W'', ''graden'')),
       (11, (''depth'', ''Diepte'', ''m NAP'')),
       (12, (''time'', ''Tijd'', ''s'')),
       (13, (''corrected_qc'', ''Gecorr. conusweerstand'', ''MPa'')),
       (14, (''net_qc'', ''Netto conusweerstand'', ''MPa'')),
       (15, (''pore_ratio'', ''Pori'' @ [CHR 0xEB] @ ''nratio'', ''-'')),
       (20, (''speed'', ''Sondeersnelheid'', ''mm/s'')),
       (21, (''temp'', ''Temperatuur'', [CHR 0xB0] @ ''C'')),
       (23, (''electric_cond'', ''Elektrische geleidbaarheid'', ''S/m'')),
       (39, (''friction_total'', ''Totale wrijving'', ''kN''))]"

text \<open>
  What the header loop builds: the \<open>header\<close> object (its string fields, keyed by
  keyword; \<open>COLUMNVOID\<close>, keyed by column index; the \<open>_columns\<close> list) and the
  \<open>columns\<close> array, which has holes where no \<open>COLUMNINFO\<close> line named the index.
\<close>

record colinfo =
  ci_unit :: string
  ci_name :: string
  ci_type :: "int option"

record gef_header =
  hfields :: "string \<rightharpoonup> string"
  COLUMNVOID :: "int \<rightharpoonup> number"
  raw_columns :: "(string \<times> string) list"

definition empty_header :: gef_header where
  "empty_header = \<lparr>hfields = Map.empty, COLUMNVOID = Map.empty, raw_columns = []\<rparr>"

text \<open>\<open>xs[i] = v\<close> on an array: an index past the end extends the array with holes.\<close>

definition array_set :: "'a option list \<Rightarrow> nat \<Rightarrow> 'a \<Rightarrow> 'a option list" where
  "array_set xs i v =
     (if i < length xs then xs[i := Some v]
      else xs @ replicate (i - length xs) None @ [Some v])"

text \<open>
  The match of \<open>/^#(\w+)\s*=\s*(.*)/\<close> on a trimmed line: the keyword and the rest.
\<close>

definition match_header :: "string \<Rightarrow> (string \<times> string) option" where
  "match_header line =
     (case line of
        [] \<Rightarrow> None
      | c # rest \<Rightarrow>
          if c \<noteq> CHR ''#'' \<or> takeWhile is_word rest = [] then None
          else (case dropWhile js_ws (dropWhile is_word rest) of
                  [] \<Rightarrow> None
                | e # v \<Rightarrow>
                    if e = CHR ''='' then Some (takeWhile is_word rest, dropWhile js_ws v)
                    else None))"

text \<open>
  \<open>_parseHeaderLine\<close>. An index that \<open>parseInt\<close> could not read names a property of the
  array or of \<open>COLUMNVOID\<close> that nothing reads, and so does an index of \<open>columns\<close> that
  is negative or not below \<open>2 ^ 32 - 1\<close>: the state is unchanged.
\<close>

definition parseHeaderLine ::
  "gef_header \<times> colinfo option list \<Rightarrow> string \<Rightarrow> string \<Rightarrow> gef_header \<times> colinfo option list"
where
  "parseHeaderLine st keyword v =
     (case st of
        (hdr, cols) \<Rightarrow>
          (let parts = map trim (split '','' v) in
           if keyword = ''COLUMNINFO'' then
             (if length parts \<ge> 3 then
                (case parseInt10 (parts ! 0) of
                   None \<Rightarrow> (hdr, cols)
                 | Some n \<Rightarrow>
                     if n - 1 < 0 \<or> 4294967295 \<le> n - 1 then (hdr, cols)
                     else (hdr, array_set cols (nat (n - 1))
                            \<lparr>ci_unit = parts ! 1, ci_name = parts ! 2,
                             ci_type = (if length parts \<ge> 4 then parseInt10 (parts ! 3)
                                        else None)\<rparr>))
              else (hdr, cols))
           else if keyword = ''COLUMNSEPARATOR'' \<or> keyword = ''RECORDSEPARATOR'' then
             (hdr\<lparr>hfields := (hfields hdr)(keyword \<mapsto> v)\<rparr>, cols)
           else if keyword = ''COLUMNVOID'' then
             (if length parts \<ge> 2 then
                (case parseInt10 (parts ! 0) of
                   None \<Rightarrow> (hdr, cols)
                 | Some n \<Rightarrow>
                     (hdr\<lparr>COLUMNVOID := (COLUMNVOID hdr)(n - 1 \<mapsto> parseFloat (parts ! 1))\<rparr>,
                      cols))
              else (hdr, cols))
           else if prefix ''COLUMN'' keyword then
             (hdr\<lparr>raw_columns := raw_columns hdr @ [(keyword, v)]\<rparr>, cols)
           else (hdr\<lparr>hfields := (hfields hdr)(keyword \<mapsto> v)\<rparr>, cols)))"

text \<open>
  The header loop of \<open>parse\<close>. A line that is \<open>#EOH=\<close> or \<open>#EOH\<close> once trimmed ends
  the header; any other line changes the state by \<open>header_step\<close> (not at all, when the
  pattern does not match). \<open>scan_header\<close> gives \<open>Some\<close> of \<open>dataStartIndex\<close> and the state
  at the first terminator, and \<open>None\<close> when the lines run out (\<open>dataStartIndex\<close> is still
  \<open>-1\<close>).
\<close>

definition is_terminator :: "string \<Rightarrow> bool" where
  "is_terminator l = (trim l = ''#EOH='' \<or> trim l = ''#EOH'')"

definition header_step ::
  "gef_header \<times> colinfo option list \<Rightarrow> string \<Rightarrow> gef_header \<times> colinfo option list"
where
  "header_step st l =
     (case match_header (trim l) of
        None \<Rightarrow> st
      | Some (kw, v) \<Rightarrow> parseHeaderLine st (toUpperCase kw) (trim v))"

fun scan_header ::
  "string list \<Rightarrow> nat \<Rightarrow> gef_header \<times> colinfo option list
     \<Rightarrow> (nat \<times> gef_header \<times> colinfo option list) option"
where
  "scan_header [] i st = None"
| "scan_header (l # ls) i st =
     (if is_terminator l then Some (i + 1, st)
      else scan_header ls (i + 1) (header_step st l))"

definition buildColumnMap :: "colinfo option list \<Rightarrow> gef_header \<Rightarrow> column list" where
  "buildColumnMap cols hdr =
     concat (map (\<lambda>i.
        case cols ! i of
          None \<Rightarrow> []
        | Some col \<Rightarrow>
            (let typeInfo = (case ci_type col of
                               None \<Rightarrow> None
                             | Some t \<Rightarrow> if t = 0 then None else GEF_COLUMN_TYPES t)
             in [\<lparr>index = Some i,
                   key = (case typeInfo of Some (k, l, u) \<Rightarrow> k
                          | None \<Rightarrow> ''col_'' @ nat_to_string (i + 1)),
                   label = (case typeInfo of Some (k, l, u) \<Rightarrow> l | None \<Rightarrow> ci_name col),
                   unit = (if ci_unit col \<noteq> [] then ci_unit col
                           else case typeInfo of Some (k, l, u) \<Rightarrow> u | None \<Rightarrow> []),
                   col_type = ci_type col,
                   voidValue = COLUMNVOID hdr (int i),
                   computed = False\<rparr>]))
       [0..<length cols])"

text \<open>
  \<open>_detectSeparator\<close>: the regular expression built from a \<open>COLUMNSEPARATOR\<close> that is not
  empty matches that string and nothing else; without one, runs of white space separate.
\<close>

datatype separator = Whitespace | Literal string

definition detectSeparator :: "gef_header \<Rightarrow> separator" where
  "detectSeparator hdr =
     (case hfields hdr ''COLUMNSEPARATOR'' of
        None \<Rightarrow> Whitespace
      | Some sep \<Rightarrow> if sep = [] then Whitespace else Literal sep)"

fun split_by :: "separator \<Rightarrow> string \<Rightarrow> string list" where
  "split_by Whitespace line = split_ws line"
| "split_by (Literal sep) line = split sep line"

text \<open>
  \<open>_parseData\<close>. A cell is \<open>null\<close> when \<open>parseFloat\<close> gives NaN (also for a token that is
  not there) or the column's void value, and the number otherwise.
\<close>

definition gef_cell :: "column \<Rightarrow> string list \<Rightarrow> number jsvalue" where
  "gef_cell col parts =
     (let val = (case index col of
                   None \<Rightarrow> NaN
                 | Some i \<Rightarrow> if i < length parts then parseFloat (parts ! i) else NaN)
      in if val = NaN then Null
         else (case voidValue col of
                 None \<Rightarrow> Num val
               | Some void \<Rightarrow> if strict_eq val void then Null else Num val))"

definition gef_row :: "column list \<Rightarrow> string list \<Rightarrow> parsed_row" where
  "gef_row columnMap parts =
     foldl (\<lambda>r col. r(key col := gef_cell col parts)) empty_parsed_row columnMap"

definition skipped_line :: "string \<Rightarrow> bool" where
  "skipped_line line =
     (line = [] \<or> prefix ''#'' line \<or> prefix ''!'' line)"

definition gef_parseData ::
  "string list \<Rightarrow> nat \<Rightarrow> separator \<Rightarrow> column list \<Rightarrow> parsed_row list"
where
  "gef_parseData lines startIndex separator columnMap =
     concat (map (\<lambda>l.
        if skipped_line (trim l) then []
        else (let parts = filter (\<lambda>s. s \<noteq> []) (map trim (split_by separator (trim l)))
              in if length parts < length columnMap then []
                 else [gef_row columnMap parts]))
       (drop startIndex lines))"

text \<open>
  \<open>_computeDerived\<close>: the rows and the column map after it. A row whose \<open>length\<close> is
  \<open>null\<close> is left as it is by the first loop.
\<close>

definition depth_computed :: column where
  "depth_computed =
     \<lparr>index = None, key = ''depth'', label = ''Diepte (berekend)'', unit = ''m'',
      col_type = None, voidValue = None, computed = True\<rparr>"

definition derive_depth :: "parsed_row \<Rightarrow> parsed_row" where
  "derive_depth r =
     (if r ''length'' \<noteq> Null then r(''depth'' := Num (nneg (to_num (r ''length'')))) else r)"

definition gef_computeDerived ::
  "parsed_row list \<Rightarrow> column list \<Rightarrow> parsed_row list \<times> column list"
where
  "gef_computeDerived rows columnMap =
     (case (if \<not> hasKey columnMap ''depth'' \<and> hasKey columnMap ''length''
            then (map derive_depth rows, columnMap @ [depth_computed])
            else (rows, columnMap)) of
        (rows1, columnMap1) \<Rightarrow>
          if \<not> hasKey columnMap1 ''rf'' \<and> hasKey columnMap1 ''qc'' \<and> hasKey columnMap1 ''fs''
          then (map derive_rf rows1, columnMap1 @ [rf_computed])
          else (rows1, columnMap1))"

text \<open>
  \<open>_extractMetadata\<close>. A header field counts when it is there and not empty.
\<close>

definition field :: "gef_header \<Rightarrow> string \<Rightarrow> string option" where
  "field hdr k = (case hfields hdr k of None \<Rightarrow> None | Some v \<Rightarrow> if v = [] then None else Some v)"

definition set_if :: "string \<Rightarrow> string option \<Rightarrow> (string \<rightharpoonup> string) \<Rightarrow> (string \<rightharpoonup> string)" where
  "set_if k v meta = (case v of None \<Rightarrow> meta | Some x \<Rightarrow> meta(k \<mapsto> x))"

definition meta_date :: "gef_header \<Rightarrow> string option" where
  "meta_date hdr =
     (case field hdr ''STARTDATE'' of
        None \<Rightarrow> None
      | Some v \<Rightarrow>
          (let parts = map trim (split '','' v)
           in if length parts \<ge> 3
              then Some (padStart2 (parts ! 2) @ ''-'' @ padStart2 (parts ! 1) @ ''-'' @ parts ! 0)
              else None))"

definition meta_surfaceLevel :: "gef_header \<Rightarrow> string option" where
  "meta_surfaceLevel hdr =
     (case field hdr ''ZID'' of
        None \<Rightarrow> None
      | Some v \<Rightarrow>
          (let parts = map trim (split '','' v)
           in if length parts \<ge> 2 then Some (parts ! 1 @ '' m NAP'') else Some v))"

definition meta_xy :: "gef_header \<Rightarrow> (string \<rightharpoonup> string) \<Rightarrow> (string \<rightharpoonup> string)" where
  "meta_xy hdr meta =
     (case field hdr ''XYID'' of
        None \<Rightarrow> meta
      | Some v \<Rightarrow>
          (let parts = map trim (split '','' v)
           in if length parts \<ge> 3
              then meta(''x'' \<mapsto> parts ! 1, ''y'' \<mapsto> parts ! 2, ''coordSystem'' \<mapsto> parts ! 0)
              else meta))"

definition meta_name :: "(string \<rightharpoonup> string) \<Rightarrow> string" where
  "meta_name meta =
     (case meta ''testId'' of
        Some v \<Rightarrow> v
      | None \<Rightarrow> (case meta ''projectId'' of Some v \<Rightarrow> v | None \<Rightarrow> ''Onbekend''))"

definition extractMetadata :: "gef_header \<Rightarrow> (string \<rightharpoonup> string)" where
  "extractMetadata hdr =
     (let meta =
        set_if ''fileOwner'' (field hdr ''FILEOWNER'')
          (set_if ''gefVersion'' (field hdr ''GEFID'')
            (set_if ''measurementVar'' (field hdr ''MEASUREMENTVAR'')
              (meta_xy hdr
                (set_if ''surfaceLevel'' (meta_surfaceLevel hdr)
                  (set_if ''date'' (meta_date hdr)
                    (set_if ''company'' (field hdr ''COMPANYID'')
                      (set_if ''projectName'' (field hdr ''PROJECTNAME'')
                        (set_if ''projectId'' (field hdr ''PROJECTID'')
                          (set_if ''testId'' (field hdr ''TESTID'') Map.empty)))))))))
      in meta(''name'' \<mapsto> meta_name meta))"

text \<open>\<open>GefParser.parse(text)\<close>.\<close>

definition gef_parse :: "string \<Rightarrow> parse_error + FormatRecord" where
  "gef_parse text =
     (let lines = text_lines text in
      case scan_header lines 0 (empty_header, []) of
        None \<Rightarrow> Inl NoEOH
      | Some (dataStartIndex, hdr, cols) \<Rightarrow>
          (let columnMap = buildColumnMap cols hdr;
               separator = detectSeparator hdr;
               rows = gef_parseData lines dataStartIndex separator columnMap
           in case gef_computeDerived rows columnMap of
                (rows', columnMap') \<Rightarrow>
                  Inr \<lparr>header = extractMetadata hdr, columns = columnMap', data = rows'\<rparr>))"

section \<open>The BRO XML parser (class BroXmlParser)\<close>

















text \<open>
  The invariant of a parsed record: every row has an entry, which may be \<open>null\<close>, for
  every key of the columns.
\<close>

definition rows_complete :: "FormatRecord \<Rightarrow> bool" where
  "rows_complete f = (\<forall>r \<in> set (data f). \<forall>c \<in> set (columns f). r (key c) \<noteq> Undefined)"

text \<open>A sounding of one row, 10 m long, used in the examples of the viewport.\<close>

definition ten_metres :: "row list" where
  "ten_metres = [empty_row(''length'' := Num 10)]"

text \<open>
  The sum of the thicknesses that \<open>totals\<close> holds for the nine zones of the table, and two
  layer sets for the examples of the distribution: a single point's layer, of thickness 0,
  and a clay layer of 1 m over 3 m of sand.
\<close>

definition zone_total :: "(nat \<rightharpoonup> rat) \<Rightarrow> rat" where
  "zone_total totals = sum_list (map (\<lambda>z. or0 (totals (zone z))) ROBERTSON_ZONES)"

definition single_point_layer :: Layer where
  "single_point_layer =
     \<lparr>startDepth = 3 / 10, endDepth = 3 / 10, layer_zone = ROBERTSON_ZONES ! 1\<rparr>"

definition clay_over_sand :: "Layer list" where
  "clay_over_sand =
     [\<lparr>startDepth = 0, endDepth = 1, layer_zone = ROBERTSON_ZONES ! 2\<rparr>,
      \<lparr>startDepth = 1, endDepth = 4, layer_zone = ROBERTSON_ZONES ! 5\<rparr>]"

section \<open>Layers as maximal runs\<close>

text \<open>
  What the data model says a layer is, in its words: a maximal contiguous run of same-zone
  classified points. \<open>zone_runs\<close> cuts a sequence of points into its maximal runs of equal
  zone number, \<open>run_layer\<close> is the layer that spans a run, from its first depth to its last,
  and \<open>spec_layers\<close> are the layers of the runs of the points with a zone, in depth order.
  \<open>depth_ordered\<close> says that layers are in depth order and do not overlap: no layer ends
  before it starts, and every layer ends where a later one starts or above.
\<close>

function zone_runs :: "(rat \<times> SoilZone) list \<Rightarrow> (rat \<times> SoilZone) list list" where
  "zone_runs [] = []"
| "zone_runs (p # ps) =
     (p # takeWhile (\<lambda>q. zone (snd q) = zone (snd p)) ps)
       # zone_runs (dropWhile (\<lambda>q. zone (snd q) = zone (snd p)) ps)"
  by pat_completeness auto
termination
  by (relation "measure length") (auto simp: length_dropWhile_le le_imp_less_Suc)

definition run_layer :: "(rat \<times> SoilZone) list \<Rightarrow> Layer" where
  "run_layer r = \<lparr>startDepth = fst (hd r), endDepth = fst (last r), layer_zone = snd (hd r)\<rparr>"

definition spec_layers :: "ClassifiedPoint list \<Rightarrow> Layer list" where
  "spec_layers classifications =
     map run_layer (zone_runs (sort_key fst (valid_points classifications)))"

definition depth_ordered :: "Layer list \<Rightarrow> bool" where
  "depth_ordered ls =
     ((\<forall>l \<in> set ls. startDepth l \<le> endDepth l)
      \<and> sorted_wrt (\<lambda>a b. endDepth a \<le> startDepth b) ls)"

text \<open>
  The second pass in the words of the data model: a run is thin when its thickness is
  below \<open>minThickness\<close>; the first run is kept, and every run that is kept is extended to
  the end depth of the last of the thin runs that follow it directly. \<open>absorb_runs\<close> are
  the layers this leaves, \<open>retained\<close> the runs they start from: the first run and the
  later runs that are not thin.
\<close>

definition thin :: "rat \<Rightarrow> Layer \<Rightarrow> bool" where
  "thin minThickness l = nlt (layer_thickness l) (double minThickness)"

function absorb_runs :: "rat \<Rightarrow> Layer list \<Rightarrow> Layer list" where
  "absorb_runs m [] = []"
| "absorb_runs m (l # ls) =
     l\<lparr>endDepth := endDepth (last (l # takeWhile (thin m) ls))\<rparr>
       # absorb_runs m (dropWhile (thin m) ls)"
  by pat_completeness auto
termination
  by (relation "measure (\<lambda>(m, ls). length ls)") (auto simp: length_dropWhile_le le_imp_less_Suc)

definition retained :: "rat \<Rightarrow> Layer list \<Rightarrow> Layer list" where
  "retained m ls = (case ls of [] \<Rightarrow> [] | l # rest \<Rightarrow> l # filter (\<lambda>r. \<not> thin m r) rest)"

text \<open>Where a layer starts and which zone it has.\<close>

definition start_zone :: "Layer \<Rightarrow> rat \<times> SoilZone" where
  "start_zone l = (startDepth l, layer_zone l)"

text \<open>
  The points of the examples: sand at 0 and 0.1 and clay at 0.3; sand at 0 and 0.1 and
  clay at 0.5 and 1; and sand at 0 with clay at two further depths.
\<close>

definition three_points :: "ClassifiedPoint list" where
  "three_points =
     [\<lparr>depth = 0, point_zone = Some (ROBERTSON_ZONES ! 5)\<rparr>,
      \<lparr>depth = 1 / 10, point_zone = Some (ROBERTSON_ZONES ! 5)\<rparr>,
      \<lparr>depth = 3 / 10, point_zone = Some (ROBERTSON_ZONES ! 2)\<rparr>]"

definition four_points :: "ClassifiedPoint list" where
  "four_points =
     [\<lparr>depth = 0, point_zone = Some (ROBERTSON_ZONES ! 5)\<rparr>,
      \<lparr>depth = 1 / 10, point_zone = Some (ROBERTSON_ZONES ! 5)\<rparr>,
      \<lparr>depth = 1 / 2, point_zone = Some (ROBERTSON_ZONES ! 2)\<rparr>,
      \<lparr>depth = 1, point_zone = Some (ROBERTSON_ZONES ! 2)\<rparr>]"

definition clay_from :: "rat \<Rightarrow> rat \<Rightarrow> ClassifiedPoint list" where
  "clay_from a b =
     [\<lparr>depth = 0, point_zone = Some (ROBERTSON_ZONES ! 5)\<rparr>,
      \<lparr>depth = a, point_zone = Some (ROBERTSON_ZONES ! 2)\<rparr>,
      \<lparr>depth = b, point_zone = Some (ROBERTSON_ZONES ! 2)\<rparr>]"

text \<open>
  The header state after the lines before the terminator, the descriptors
  \<open>_computeDerived\<close> appends to a column map, and two texts for the examples: a header of
  two columns that ends the file with its terminator, and the same header without one.
\<close>

definition header_state :: "string list \<Rightarrow> gef_header \<times> colinfo option list" where
  "header_state pre = foldl header_step (empty_header, []) pre"

definition derived_columns :: "column list \<Rightarrow> column list" where
  "derived_columns columnMap =
     columnMap
     @ (if \<not> hasKey columnMap ''depth'' \<and> hasKey columnMap ''length''
        then [depth_computed] else [])
     @ (if \<not> hasKey columnMap ''rf'' \<and> hasKey columnMap ''qc'' \<and> hasKey columnMap ''fs''
        then [rf_computed] else [])"

text \<open>
  A line after the terminator is a data line when \<open>_parseData\<close> makes a row of it: it is
  not skipped and has at least as many tokens as there are mapped columns.
\<close>

definition data_line :: "separator \<Rightarrow> column list \<Rightarrow> string \<Rightarrow> bool" where
  "data_line separator columnMap l =
     (\<not> skipped_line (trim l)
      \<and> length columnMap
          \<le> length (filter (\<lambda>s. s \<noteq> []) (map trim (split_by separator (trim l)))))"

definition header_lines :: "string list" where
  "header_lines = [''#COLUMNINFO= 1, m, L, 1'', ''#COLUMNINFO= 2, MPa, qc, 2'']"

definition header_only :: string where
  "header_only =
     ''#COLUMNINFO= 1, m, L, 1'' @ [CR, LF] @ ''#COLUMNINFO= 2, MPa, qc, 2'' @ [CR, LF]
     @ ''#EOH='' @ [CR, LF]"

definition no_terminator :: string where
  "no_terminator =
     ''#COLUMNINFO= 1, m, L, 1'' @ [CR, LF] @ ''#COLUMNINFO= 2, MPa, qc, 2'' @ [CR, LF]"

text \<open>
  Inputs for the examples of the parsers and of \<open>classifyDataset\<close>. A GEF text with one
  length column whose void value is \<open>-9999\<close> and two data lines, the second void, and the
  record the parser returns for it. Two rows, the first with a \<open>null\<close> depth and a length
  of 5, the second with a length of \<open>-3\<close> and no depth entry. A CPT object whose values
  hold one block of 25 tokens and one block of 3; of the 25 tokens the second and the last
  are the void value, the third is a numeral that rounds to it, the fifth is an infinity
  and the last but one is not a number. The same object with parameters that flag only
  the cone resistance and the local friction.
\<close>

definition void_length :: string where
  "void_length =
     ''#COLUMNINFO= 1, m, L, 1'' @ [LF] @ ''#COLUMNVOID= 1, -9999'' @ [LF] @ ''#EOH='' @ [LF]
     @ ''0.50'' @ [LF] @ ''-9999'' @ [LF]"

definition void_length_record :: FormatRecord where
  "void_length_record =
     \<lparr>header = [''name'' \<mapsto> ''Onbekend''],
      columns =
        [\<lparr>index = Some 0, key = ''length'', label = ''Sondeerlengte'', unit = ''m'',
          col_type = Some 1, voidValue = Some (Fin (- 9999)), computed = False\<rparr>,
         depth_computed],
      data =
        [empty_parsed_row(''length'' := Num (Fin (1 / 2)), ''depth'' := Num (Fin (- (1 / 2)))),
         empty_parsed_row(''length'' := Null)]\<rparr>"

definition two_rows :: "row list" where
  "two_rows =
     [empty_row(''depth'' := Null, ''length'' := Num 5, ''qc'' := Num 2, ''rf'' := Num 1),
      empty_row(''length'' := Num (- 3), ''qc'' := Num 2, ''rf'' := Num 1)]"




section \<open>Doubles\<close>

text \<open>
  The doubles nearest to the decimal numerals of the examples. 0.1, 0.2 and 0.3 are not
  doubles: the difference of the doubles nearest to 0.3 and 0.1 is below the double nearest
  to 0.2, and the difference of those nearest to 0.25 and 0.05 is not.
\<close>

lemma double_small: "\<bar>round64 x\<bar> < 2 ^ 64 \<Longrightarrow> double x = Fin (round64 x)"
proof -
  assume "\<bar>round64 x\<bar> < 2 ^ 64"
  moreover have "(2::rat) ^ 64 \<le> 2 ^ 1024" by (rule power_increasing) simp_all
  ultimately have "\<not> 2 ^ 1024 \<le> \<bar>round64 x\<bar>" by linarith
  then show ?thesis by (simp add: double_def Let_def)
qed

lemma round64_0: "round64 0 = 0"
  by code_simp

lemma round64_1: "round64 1 = 1"
  by code_simp

lemma round64_half: "round64 (1 / 2) = 1 / 2"
  by code_simp

lemma round64_tenth: "round64 (1 / 10) = 3602879701896397 / 36028797018963968"
  by code_simp

lemma round64_fifth: "round64 (1 / 5) = 3602879701896397 / 18014398509481984"
  by code_simp

lemma round64_three_tenths: "round64 (3 / 10) = 5404319552844595 / 18014398509481984"
  by code_simp

lemma round64_quarter: "round64 (1 / 4) = 1 / 4"
  by code_simp

lemma round64_twentieth: "round64 (1 / 20) = 3602879701896397 / 72057594037927936"
  by code_simp

lemma round64_diff_3_1:
  "round64 (5404319552844595 / 18014398509481984 - 3602879701896397 / 36028797018963968)
   = 7205759403792793 / 36028797018963968"
  by code_simp

lemma round64_diff_25_5:
  "round64 (1 / 4 - 3602879701896397 / 72057594037927936)
   = 3602879701896397 / 18014398509481984"
  by code_simp

lemma double_0: "double 0 = Fin 0"
  by (rule double_small [THEN trans]) (simp_all add: round64_0)

lemma double_1: "double 1 = Fin 1"
  by (rule double_small [THEN trans]) (simp_all add: round64_1)

lemma double_half: "double (1 / 2) = Fin (1 / 2)"
  by (rule double_small [THEN trans]) (simp_all add: round64_half)

lemma double_tenth: "double (1 / 10) = Fin (3602879701896397 / 36028797018963968)"
  by (rule double_small [THEN trans]) (simp_all add: round64_tenth)

lemma double_fifth: "double (1 / 5) = Fin (3602879701896397 / 18014398509481984)"
  by (rule double_small [THEN trans]) (simp_all add: round64_fifth)

lemma double_three_tenths: "double (3 / 10) = Fin (5404319552844595 / 18014398509481984)"
  by (rule double_small [THEN trans]) (simp_all add: round64_three_tenths)

lemma double_quarter: "double (1 / 4) = Fin (1 / 4)"
  by (rule double_small [THEN trans]) (simp_all add: round64_quarter)

lemma double_twentieth: "double (1 / 20) = Fin (3602879701896397 / 72057594037927936)"
  by (rule double_small [THEN trans]) (simp_all add: round64_twentieth)

lemma double_diff_3_1:
  "rounded (nsub (double (3 / 10)) (double (1 / 10))) = Fin (7205759403792793 / 36028797018963968)"
proof -
  have "nsub (double (3 / 10)) (double (1 / 10))
        = Fin (5404319552844595 / 18014398509481984 - 3602879701896397 / 36028797018963968)"
    unfolding double_three_tenths double_tenth nsub_def by (simp del: diff_divide_distrib)
  moreover have "double (5404319552844595 / 18014398509481984 - 3602879701896397 / 36028797018963968)
        = Fin (7205759403792793 / 36028797018963968)"
    by (rule double_small [THEN trans]) (simp_all only: round64_diff_3_1, simp_all)
  ultimately show ?thesis by (simp only: rounded.simps)
qed

lemma double_diff_25_5:
  "rounded (nsub (double (1 / 4)) (double (1 / 20))) = Fin (3602879701896397 / 18014398509481984)"
proof -
  have "nsub (double (1 / 4)) (double (1 / 20)) = Fin (1 / 4 - 3602879701896397 / 72057594037927936)"
    unfolding double_quarter double_twentieth nsub_def by (simp del: diff_divide_distrib)
  moreover have "double (1 / 4 - 3602879701896397 / 72057594037927936)
        = Fin (3602879701896397 / 18014398509481984)"
    by (rule double_small [THEN trans]) (simp_all only: round64_diff_25_5, simp_all)
  ultimately show ?thesis by (simp only: rounded.simps)
qed

lemma rounded_same:
  assumes "double a = Fin r"
  shows "rounded (nsub (double a) (double a)) = Fin 0"
proof -
  have "nsub (double a) (double a) = Fin 0"
    by (simp add: assms nsub_def)
  then show ?thesis
    by (simp only: rounded.simps double_0)
qed

lemma thickness_of_point:
  assumes "double a = Fin r"
  shows "layer_thickness \<lparr>startDepth = a, endDepth = a, layer_zone = z\<rparr> = Fin 0"
  using rounded_same [OF assms] by (simp add: layer_thickness_def)
section \<open>Properties of the classifier\<close>

lemma ROBERTSON_ZONES_length: "length ROBERTSON_ZONES = 9"
  by (simp add: ROBERTSON_ZONES_def)

lemma ROBERTSON_ZONES_distinct: "distinct (map zone ROBERTSON_ZONES)"
  by (simp add: ROBERTSON_ZONES_def)

lemma ROBERTSON_ZONES_nth_zone: "i < 9 \<Longrightarrow> zone (ROBERTSON_ZONES ! i) = Suc i"
proof -
  assume "i < 9"
  then have "i \<in> {0, 1, 2, 3, 4, 5, 6, 7, 8}" by auto
  then show ?thesis by (auto simp: ROBERTSON_ZONES_def)
qed

lemma ROBERTSON_ZONES_nth_mem: "i < 9 \<Longrightarrow> ROBERTSON_ZONES ! i \<in> set ROBERTSON_ZONES"
  by (simp add: ROBERTSON_ZONES_length)

lemma classify_num_in_table:
  "classify (Num qc) (Num rf) = Some z \<Longrightarrow> z \<in> set ROBERTSON_ZONES"
  by (auto split: if_splits simp: ROBERTSON_ZONES_nth_mem)

lemma classify_in_table: "classify qc rf = Some z \<Longrightarrow> z \<in> set ROBERTSON_ZONES"
  by (cases qc; cases rf) (simp_all only: classify.simps classify_num_in_table option.distinct)

lemma classify_None_iff:
  "classify qc rf = None \<longleftrightarrow>
     missing qc \<or> missing rf \<or> (\<exists>q r. qc = Num q \<and> rf = Num r \<and> (q \<le> 0 \<or> r < 0))"
  by (cases qc; cases rf) (simp_all add: missing_def)

text \<open>
  C1. For present numeric inputs with \<open>qc > 0\<close> and \<open>rf \<ge> 0\<close>, \<open>classify\<close> returns exactly
  one of the nine zones of the fixed table; it returns null exactly when an input is
  missing, \<open>qc \<le> 0\<close> or \<open>rf < 0\<close>. The result depends on \<open>(qc, rf)\<close> alone: \<open>classify\<close>
  is a function of its two arguments.
\<close>

theorem classify_zone_or_null:
  "(classify qc rf = None \<longleftrightarrow>
      missing qc \<or> missing rf \<or> (\<exists>q r. qc = Num q \<and> rf = Num r \<and> (q \<le> 0 \<or> r < 0)))
   \<and> (\<forall>q r. qc = Num q \<and> rf = Num r \<and> 0 < q \<and> 0 \<le> r \<longrightarrow>
          (\<exists>!z. z \<in> set ROBERTSON_ZONES \<and> classify qc rf = Some z))
   \<and> length ROBERTSON_ZONES = 9 \<and> distinct (map zone ROBERTSON_ZONES)"
proof (intro conjI allI impI)
  show "classify qc rf = None \<longleftrightarrow>
      missing qc \<or> missing rf \<or> (\<exists>q r. qc = Num q \<and> rf = Num r \<and> (q \<le> 0 \<or> r < 0))"
    by (rule classify_None_iff)
next
  fix q r
  assume h: "qc = Num q \<and> rf = Num r \<and> 0 < q \<and> 0 \<le> r"
  then have "classify qc rf \<noteq> None"
    by (simp add: classify_None_iff missing_def)
  then obtain z where z: "classify qc rf = Some z"
    by blast
  then have "z \<in> set ROBERTSON_ZONES"
    by (rule classify_in_table)
  with z show "\<exists>!z. z \<in> set ROBERTSON_ZONES \<and> classify qc rf = Some z"
    by auto
next
  show "length ROBERTSON_ZONES = 9"
    by (rule ROBERTSON_ZONES_length)
next
  show "distinct (map zone ROBERTSON_ZONES)"
    by (rule ROBERTSON_ZONES_distinct)
qed

theorem classify_zone_or_null_witness:
  "(\<exists>!z. z \<in> set ROBERTSON_ZONES \<and> classify (Num 3) (Num 2) = Some z)
   \<and> classify (Num 3) (Num 2) = Some (ROBERTSON_ZONES ! 3)
   \<and> classify (Num 0) (Num 5) = None
   \<and> classify (Num (- 1)) (Num 5) = None
   \<and> classify Null (Num 5) = None"
proof -
  have "(\<exists>!z. z \<in> set ROBERTSON_ZONES \<and> classify (Num 3) (Num 2) = Some z)"
    using classify_zone_or_null [of "Num 3" "Num 2"] by simp
  moreover have "classify (Num 0) (Num 5) = None"
    using classify_zone_or_null [of "Num 0" "Num 5"] by simp
  moreover have "classify (Num (- 1)) (Num 5) = None"
    using classify_zone_or_null [of "Num (- 1)" "Num 5"] by simp
  moreover have "classify Null (Num 5) = None"
    using classify_zone_or_null [of Null "Num 5"] by (simp add: missing_def)
  moreover have "classify (Num 3) (Num 2) = Some (ROBERTSON_ZONES ! 3)"
    by simp
  ultimately show ?thesis by blast
qed

text \<open>
  C2, as stated: \<open>classify(25.0, 0.5)\<close> returns zone 7. It does not: 25 is not above 25,
  so the \<open>qc > 10\<close> band decides, and there 0.5 is not below 0.5; the next threshold
  (\<open>rf < 1.5\<close>) gives zone 6.
\<close>

theorem classify_25_half_is_zone_6:
  "classify (Num 25) (Num (1 / 2)) = Some (ROBERTSON_ZONES ! 5)
   \<and> zone (ROBERTSON_ZONES ! 5) = 6
   \<and> zone (ROBERTSON_ZONES ! 6) = 7
   \<and> classify (Num 25) (Num (1 / 2)) \<noteq> Some (ROBERTSON_ZONES ! 6)"
  by (simp add: ROBERTSON_ZONES_def)

text \<open>
  C2, amended. The comparisons at the band boundaries are strict: \<open>classify(25.0, rf)\<close>
  is decided by the \<open>qc > 10\<close> band, so it is zone 7 for \<open>0 \<le> rf < 0.5\<close>, zone 6 for
  \<open>0.5 \<le> rf < 1.5\<close> (and so at \<open>rf = 0.5\<close>), zone 5 for \<open>1.5 \<le> rf < 3\<close> and zone 8 from
  3 on; for any \<open>qc\<close> above 25 the \<open>qc > 25\<close> band decides instead (zone 7 below
  \<open>rf = 1\<close>, zone 8 from there).
\<close>

theorem classify_at_band_boundary:
  "classify (Num 25) (Num rf) =
     (if rf < 0 then None
      else if rf < 1 / 2 then Some (ROBERTSON_ZONES ! 6)
      else if rf < 3 / 2 then Some (ROBERTSON_ZONES ! 5)
      else if rf < 3 then Some (ROBERTSON_ZONES ! 4)
      else Some (ROBERTSON_ZONES ! 7))
   \<and> (25 < qc \<longrightarrow>
        classify (Num qc) (Num rf) =
          (if rf < 0 then None
           else if rf < 1 then Some (ROBERTSON_ZONES ! 6)
           else Some (ROBERTSON_ZONES ! 7)))
   \<and> map zone ROBERTSON_ZONES = [1, 2, 3, 4, 5, 6, 7, 8, 9]"
  by (simp add: ROBERTSON_ZONES_def)

theorem classify_at_band_boundary_witness:
  "classify (Num 25) (Num (1 / 4)) = Some (ROBERTSON_ZONES ! 6)
   \<and> classify (Num 25) (Num (1 / 2)) = Some (ROBERTSON_ZONES ! 5)
   \<and> classify (Num 26) (Num (1 / 2)) = Some (ROBERTSON_ZONES ! 6)"
  using classify_at_band_boundary [of "1 / 4" 26] classify_at_band_boundary [of "1 / 2" 26]
  by simp

text \<open>
  C4. On the points \<open>{0, z1}\<close>, \<open>{0.1, z1}\<close>, \<open>{0.3, z2}\<close> with \<open>minThickness\<close> 0.2 (the
  default), the first loop builds the layers \<open>[0, 0.1]\<close> of \<open>z1\<close> and \<open>[0.3, 0.3]\<close> of
  \<open>z2\<close>, and \<open>mergeLayers\<close> returns the single layer \<open>[0, 0.3]\<close> of zone \<open>z1\<close>: the
  second layer, of thickness 0, is absorbed into the first.
\<close>

theorem mergeLayers_absorbs_singleton:
  "zone z1 \<noteq> zone z2 \<Longrightarrow>
   buildLayers [] \<lparr>startDepth = 0, endDepth = 0, layer_zone = z1\<rparr> [(1 / 10, z1), (3 / 10, z2)]
     = [\<lparr>startDepth = 0, endDepth = 1 / 10, layer_zone = z1\<rparr>,
        \<lparr>startDepth = 3 / 10, endDepth = 3 / 10, layer_zone = z2\<rparr>]
   \<and> mergeLayers
       [\<lparr>depth = 0, point_zone = Some z1\<rparr>,
        \<lparr>depth = 1 / 10, point_zone = Some z1\<rparr>,
        \<lparr>depth = 3 / 10, point_zone = Some z2\<rparr>] default_minThickness
     = [\<lparr>startDepth = 0, endDepth = 3 / 10, layer_zone = z1\<rparr>]
   \<and> default_minThickness = 2 / 10"
  by (simp add: mergeLayers_def valid_points_def default_minThickness_def double_fifth
        thickness_of_point [OF double_three_tenths])

theorem mergeLayers_absorbs_singleton_witness:
  "zone (ROBERTSON_ZONES ! 5) \<noteq> zone (ROBERTSON_ZONES ! 2)
   \<and> mergeLayers
       [\<lparr>depth = 0, point_zone = Some (ROBERTSON_ZONES ! 5)\<rparr>,
        \<lparr>depth = 1 / 10, point_zone = Some (ROBERTSON_ZONES ! 5)\<rparr>,
        \<lparr>depth = 3 / 10, point_zone = Some (ROBERTSON_ZONES ! 2)\<rparr>] default_minThickness
     = [\<lparr>startDepth = 0, endDepth = 3 / 10, layer_zone = ROBERTSON_ZONES ! 5\<rparr>]"
proof -
  have h: "zone (ROBERTSON_ZONES ! 5) \<noteq> zone (ROBERTSON_ZONES ! 2)"
    by (simp add: ROBERTSON_ZONES_def)
  show ?thesis
    using h mergeLayers_absorbs_singleton [OF h] by simp
qed

section \<open>Properties of the viewport\<close>




lemma nsub_Fin: "nsub (Fin x) (Fin y) = Fin (x - y)"
  by (simp add: nsub_def)

lemma plotH_Some: "plotH (Some h) = Fin (of_int h - 32)"
  by (simp add: plotH_def plotB_def plotT_def nsub_Fin)

lemma plotH_None: "plotH None = NaN"
  by (simp add: plotH_def plotB_def nsub_def)














lemma ceiling_107_10: "\<lceil>107 / 10 :: rat\<rceil> = 11"
  by (rule ceiling_unique) simp_all

lemma setData_ten_metres:
  "setData ten_metres [''length''] new_chart
   = \<lparr>depths = [Some 10], depthMin = 0, depthMax = 11, depthViewMin = Fin 0,
      depthViewMax = Fin 11, hoverY = None, isPanning = False, panStartY = 0,
      panStartDepthMin = Fin 0, panStartDepthMax = Fin 0\<rparr>"
  by (simp add: setData_def ten_metres_def row_depth_def Math_abs_def empty_row_def Let_def
        new_chart_def ceiling_107_10)


text \<open>
  A pan and a wheel zoom-out leave the extent as well: dragging 100 pixels down on a
  canvas of height 532 moves the view to \<open>[-2.2, 8.8]\<close>, and one wheel step out at
  \<open>y = 280\<close> widens it to \<open>[-0.66528, 11.65472]\<close>.
\<close>

lemma view_leaves_extent_on_pan:
  "depthViewMin (run [MouseDown 0 100, MouseMove (Some 532) 200]
       (setData ten_metres [''length''] new_chart)) = Fin (- (11 / 5))
   \<and> depthViewMax (run [MouseDown 0 100, MouseMove (Some 532) 200]
       (setData ten_metres [''length''] new_chart)) = Fin (44 / 5)
   \<and> \<not> view_within_extent (run [MouseDown 0 100, MouseMove (Some 532) 200]
       (setData ten_metres [''length''] new_chart))"
  by (simp add: setData_ten_metres onMouseDown_def onMouseMove_def plotH_Some nsub_Fin Let_def
        view_within_extent_def nle_def)

lemma view_leaves_extent_on_wheel_out:
  "depthViewMin (run [Wheel (Some 532) 280 1] (setData ten_metres [''length''] new_chart))
     = Fin (- (2079 / 3125))
   \<and> depthViewMax (run [Wheel (Some 532) 280 1] (setData ten_metres [''length''] new_chart))
     = Fin (36421 / 3125)
   \<and> \<not> view_within_extent (run [Wheel (Some 532) 280 1]
       (setData ten_metres [''length''] new_chart))"
  by (simp add: setData_ten_metres onWheel_def y2d_def plotH_Some plotB_def plotT_def nsub_Fin
        Let_def view_within_extent_def nle_def)

text \<open>
  A wheel event at \<open>y = 28\<close> on a canvas of height 32 divides 0 by 0, and a wheel event at
  \<open>y \<ge> 28\<close> while the canvas height is undefined computes with NaN: both store NaN in the
  two bounds of the view, whichever way the wheel turns.
\<close>

lemma view_NaN_on_flat_plot:
  "depthViewMin (run [Wheel (Some 32) 28 deltaY] (setData ten_metres [''length''] new_chart)) = NaN
   \<and> depthViewMax (run [Wheel (Some 32) 28 deltaY] (setData ten_metres [''length''] new_chart)) = NaN
   \<and> \<not> view_within_extent (run [Wheel (Some 32) 28 deltaY]
       (setData ten_metres [''length''] new_chart))
   \<and> depthViewMin (run [Wheel None 100 deltaY] (setData ten_metres [''length''] new_chart)) = NaN
   \<and> depthViewMax (run [Wheel None 100 deltaY] (setData ten_metres [''length''] new_chart)) = NaN"
  by (simp add: setData_ten_metres onWheel_def y2d_def plotH_Some plotH_None plotB_def plotT_def
        nsub_def Let_def view_within_extent_def nle_def)


section \<open>Properties of the distribution\<close>

lemma zone_total_empty: "zone_total Map.empty = 0"
  by (simp add: zone_total_def or0_def)

lemma zone_in_table: "z \<in> set ROBERTSON_ZONES \<Longrightarrow> zone z \<in> {1, 2, 3, 4, 5, 6, 7, 8, 9}"
  by (auto simp: ROBERTSON_ZONES_def)

lemma zone_total_update:
  assumes "z \<in> set ROBERTSON_ZONES"
  shows "zone_total (totals(zone z \<mapsto> v)) = zone_total totals + v - or0 (totals (zone z))"
proof -
  have "zone z \<in> {1, 2, 3, 4, 5, 6, 7, 8, 9}"
    using assms by (rule zone_in_table)
  then show ?thesis
    by (auto simp: zone_total_def ROBERTSON_ZONES_def or0_def)
qed

lemma or0_update_nonneg:
  "\<forall>k. 0 \<le> or0 (totals k) \<Longrightarrow> 0 \<le> v \<Longrightarrow> \<forall>k. 0 \<le> or0 ((totals(j \<mapsto> v)) k)"
  by (simp add: or0_def)

lemma sumThickness_invariant:
  "\<forall>l \<in> set ls. layer_zone l \<in> set ROBERTSON_ZONES \<Longrightarrow>
   \<forall>k. 0 \<le> or0 (totals k) \<Longrightarrow>
   sumThickness ls totals T = (totals', T') \<Longrightarrow>
   zone_total totals' - zone_total totals = T' - T \<and> T \<le> T'
   \<and> (\<forall>k. 0 \<le> or0 (totals' k))
   \<and> ((\<exists>l \<in> set ls. startDepth l < endDepth l) \<longrightarrow> T < T')
   \<and> ((\<forall>l \<in> set ls. endDepth l \<le> startDepth l) \<longrightarrow> T' = T)"
proof (induction ls totals T rule: sumThickness.induct)
  case (1 totals T)
  then show ?case by simp
next
  case (2 layer ls totals T)
  let ?t = "endDepth layer - startDepth layer"
  let ?z = "zone (layer_zone layer)"
  show ?case
  proof (cases "?t \<le> 0")
    case True
    with 2 show ?thesis by (simp add: Let_def) 
  next
    case False
    let ?totals1 = "totals(?z \<mapsto> or0 (totals ?z) + ?t)"
    from False 2 have run: "sumThickness ls ?totals1 (T + ?t) = (totals', T')"
      by (simp add: Let_def)
    have nn: "\<forall>k. 0 \<le> or0 (?totals1 k)"
      using 2(4) False by (intro or0_update_nonneg) (auto intro: add_nonneg_nonneg)
    have in_tab: "layer_zone layer \<in> set ROBERTSON_ZONES" "\<forall>l \<in> set ls. layer_zone l \<in> set ROBERTSON_ZONES"
      using 2(3) by simp_all
    have ih: "zone_total totals' - zone_total ?totals1 = T' - (T + ?t) \<and> T + ?t \<le> T'
       \<and> (\<forall>k. 0 \<le> or0 (totals' k))
       \<and> ((\<exists>l \<in> set ls. startDepth l < endDepth l) \<longrightarrow> T + ?t < T')
       \<and> ((\<forall>l \<in> set ls. endDepth l \<le> startDepth l) \<longrightarrow> T' = T + ?t)"
      by (rule 2(2) [OF refl False in_tab(2) nn run])
    have upd: "zone_total ?totals1 = zone_total totals + ?t"
      using zone_total_update [OF in_tab(1), of totals "or0 (totals ?z) + ?t"] by simp
    show ?thesis
      using ih upd False by auto
  qed
qed

lemma sum_list_insort_key:
  "sum_list (map f (insort_key g x xs)) = f x + sum_list (map f xs)"
  for f :: "'a \<Rightarrow> rat"
  by (induction xs) simp_all

lemma sum_list_sort_key: "sum_list (map f (sort_key g xs)) = sum_list (map f xs)"
  for f :: "'a \<Rightarrow> rat"
  by (induction xs) (simp_all add: sum_list_insort_key)

lemma sum_list_filter_positive:
  "\<forall>x \<in> set xs. 0 \<le> f x \<Longrightarrow> sum_list (map f (filter (\<lambda>x. 0 < f x) xs)) = sum_list (map f xs)"
  for f :: "'a \<Rightarrow> rat"
  by (induction xs) (auto simp: not_less)

lemma sum_list_percentages:
  "T \<noteq> 0 \<Longrightarrow>
   sum_list (map (\<lambda>z. or0 (totals (zone z)) / T * 100) ROBERTSON_ZONES) = zone_total totals / T * 100"
  by (simp add: zone_total_def ROBERTSON_ZONES_def field_simps)

lemma computeDistribution_positive: "\<forall>d \<in> set (computeDistribution layers). 0 < percentage d"
  by (auto simp: computeDistribution_def split: prod.splits)

lemma computeDistribution_sorted:
  "sorted_wrt (\<lambda>a b. percentage b \<le> percentage a) (computeDistribution layers)"
proof -
  have "sorted (map (\<lambda>d. - percentage d) (sort_key (\<lambda>d. - percentage d) xs))" for xs :: "DistributionEntry list"
    by (rule sorted_sort_key)
  then have "sorted_wrt (\<lambda>a b. percentage b \<le> percentage a) (sort_key (\<lambda>d. - percentage d) xs)" for xs :: "DistributionEntry list"
    by (simp add: sorted_map)
  then show ?thesis
    by (auto simp: computeDistribution_def split: prod.splits)
qed

lemma computeDistribution_sum:
  assumes tab: "\<forall>l \<in> set layers. layer_zone l \<in> set ROBERTSON_ZONES"
    and thick: "\<exists>l \<in> set layers. startDepth l < endDepth l"
  shows "sum_list (map percentage (computeDistribution layers)) = 100"
proof -
  obtain totals T where run: "sumThickness layers Map.empty 0 = (totals, T)"
    by (cases "sumThickness layers Map.empty 0")
  have nn0: "\<forall>k. 0 \<le> or0 (Map.empty k :: rat option)"
    by (simp add: or0_def)
  have inv: "zone_total totals - zone_total Map.empty = T - 0 \<and> (\<forall>k. 0 \<le> or0 (totals k)) \<and> 0 < T"
    using sumThickness_invariant [OF tab nn0 run] thick by blast
  then have T: "0 < T" and zt: "zone_total totals = T" and nn: "\<forall>k. 0 \<le> or0 (totals k)"
    by (simp_all add: zone_total_empty)
  let ?entries = "map (\<lambda>z. \<lparr>dist_zone = z, thickness = or0 (totals (zone z)),
                                percentage = or0 (totals (zone z)) / T * 100\<rparr>) ROBERTSON_ZONES"
  have ne: "layers \<noteq> []" using thick by auto
  have cd: "computeDistribution layers
       = sort_key (\<lambda>d. - percentage d) (filter (\<lambda>d. 0 < percentage d) ?entries)"
    using run T ne by (simp add: computeDistribution_def)
  have pos: "\<forall>d \<in> set ?entries. 0 \<le> percentage d"
    using nn T by (auto intro!: mult_nonneg_nonneg divide_nonneg_pos)
  have "sum_list (map percentage (computeDistribution layers)) = sum_list (map percentage ?entries)"
    by (simp only: cd sum_list_sort_key sum_list_filter_positive [OF pos])
  also have "\<dots> = sum_list (map (\<lambda>z. or0 (totals (zone z)) / T * 100) ROBERTSON_ZONES)"
    by (simp add: comp_def)
  also have "\<dots> = zone_total totals / T * 100"
    using T by (intro sum_list_percentages) simp
  also have "\<dots> = 100"
    using T zt by simp
  finally show ?thesis .
qed

lemma computeDistribution_thin:
  assumes "\<forall>l \<in> set layers. endDepth l \<le> startDepth l"
  shows "computeDistribution layers = []"
proof -
  have "\<And>totals T. sumThickness layers totals T = (totals, T)"
    using assms by (induction layers) (simp_all add: Let_def)
  then show ?thesis
    by (simp add: computeDistribution_def)
qed

text \<open>
  C5, as stated: the percentages sum to 100 for every layer set that is not empty. A layer
  set whose layers all have thickness 0 refutes it: \<open>mergeLayers\<close> of a single point is the
  layer \<open>[0.3, 0.3]\<close>, the total thickness is 0, and \<open>computeDistribution\<close> returns the
  empty list, whose percentages sum to 0.
\<close>

theorem computeDistribution_of_single_point:
  "mergeLayers [\<lparr>depth = 3 / 10, point_zone = Some (ROBERTSON_ZONES ! 1)\<rparr>] default_minThickness
     = [single_point_layer]
   \<and> [single_point_layer] \<noteq> []
   \<and> computeDistribution [single_point_layer] = []
   \<and> sum_list (map percentage (computeDistribution [single_point_layer])) \<noteq> 100"
  by (simp add: single_point_layer_def computeDistribution_def mergeLayers_def valid_points_def
        default_minThickness_def)

text \<open>
  C5, amended. For every layer set with a layer of positive thickness (the zones being
  zones of the table), the percentages of the entries \<open>computeDistribution\<close> returns sum
  to 100 exactly; for a layer set with no such layer it returns no entry. In both cases
  every returned entry has a positive percentage and the entries are in descending order
  of percentage.
\<close>

theorem computeDistribution_percentages:
  assumes "\<forall>l \<in> set layers. layer_zone l \<in> set ROBERTSON_ZONES"
  shows "((\<exists>l \<in> set layers. startDepth l < endDepth l) \<longrightarrow>
            sum_list (map percentage (computeDistribution layers)) = 100)
         \<and> ((\<forall>l \<in> set layers. endDepth l \<le> startDepth l) \<longrightarrow>
              computeDistribution layers = [])
         \<and> (\<forall>d \<in> set (computeDistribution layers). 0 < percentage d)
         \<and> sorted_wrt (\<lambda>a b. percentage b \<le> percentage a) (computeDistribution layers)"
  using assms computeDistribution_sum [of layers] computeDistribution_thin [of layers]
    computeDistribution_positive [of layers] computeDistribution_sorted [of layers]
  by blast

theorem computeDistribution_percentages_witness:
  "list_all (\<lambda>l. layer_zone l \<in> set ROBERTSON_ZONES) clay_over_sand
   \<and> list_ex (\<lambda>l. startDepth l < endDepth l) clay_over_sand
   \<and> sum_list (map percentage (computeDistribution clay_over_sand)) = 100
   \<and> map percentage (computeDistribution clay_over_sand) = [75, 25]"
proof -
  have tab: "\<forall>l \<in> set clay_over_sand. layer_zone l \<in> set ROBERTSON_ZONES"
    by (simp add: clay_over_sand_def ROBERTSON_ZONES_nth_mem)
  have thick: "\<exists>l \<in> set clay_over_sand. startDepth l < endDepth l"
    by (simp add: clay_over_sand_def)
  have "sum_list (map percentage (computeDistribution clay_over_sand)) = 100"
    using computeDistribution_percentages [OF tab] thick by blast
  moreover have "map percentage (computeDistribution clay_over_sand) = [75, 25]"
    by (simp add: clay_over_sand_def computeDistribution_def ROBERTSON_ZONES_def or0_def)
  ultimately show ?thesis
    using tab thick by (simp add: list_all_iff list_ex_iff)
qed

section \<open>Properties of the layers\<close>

text \<open>
  \<open>zone_runs\<close> cuts a sequence into runs (\<open>zone_runs_concat\<close>) that are not empty and of
  one zone each (\<open>zone_runs_same_zone\<close>), and neighbouring runs differ in zone
  (\<open>zone_runs_maximal\<close>): the runs are maximal. The first loop of \<open>mergeLayers\<close> builds
  the layers of these runs (\<open>buildLayers_spec\<close>).
\<close>

lemma zone_runs_concat: "concat (zone_runs ps) = ps"
  by (induction ps rule: zone_runs.induct) simp_all

lemma zone_runs_same_zone:
  "r \<in> set (zone_runs ps) \<Longrightarrow> r \<noteq> [] \<and> (\<forall>q \<in> set r. zone (snd q) = zone (snd (hd r)))"
proof (induction ps rule: zone_runs.induct)
  case 1
  then show ?case by simp
next
  case (2 p ps)
  let ?same = "\<lambda>q. zone (snd q) = zone (snd p)"
  from 2(2) have "r = p # takeWhile ?same ps \<or> r \<in> set (zone_runs (dropWhile ?same ps))"
    by simp
  then show ?case
  proof
    assume r: "r = p # takeWhile ?same ps"
    have tw: "\<forall>q \<in> set (takeWhile ?same ps). ?same q"
      by (metis (mono_tags, lifting) set_takeWhileD)
    have ne: "r \<noteq> []" and hd: "hd r = p"
      and set: "set r = insert p (set (takeWhile ?same ps))"
      using r by simp_all
    show ?thesis
    proof (intro conjI ballI)
      show "r \<noteq> []" by (rule ne)
    next
      fix q
      assume "q \<in> set r"
      with set consider "q = p" | "q \<in> set (takeWhile ?same ps)"
        by blast
      then have "zone (snd q) = zone (snd p)"
      proof cases
        case 1
        then show ?thesis by simp
      next
        case 2
        with tw show ?thesis by blast
      qed
      then show "zone (snd q) = zone (snd (hd r))"
        by (simp only: hd)
    qed
  next
    assume "r \<in> set (zone_runs (dropWhile ?same ps))"
    then show ?thesis by (rule 2(1))
  qed
qed

lemma zone_runs_subset: "r \<in> set (zone_runs ps) \<Longrightarrow> set r \<subseteq> set ps"
proof -
  assume "r \<in> set (zone_runs ps)"
  then have "set r \<subseteq> set (concat (zone_runs ps))" by auto
  then show ?thesis by (simp add: zone_runs_concat)
qed

lemma zone_runs_hd: "zone_runs ps \<noteq> [] \<Longrightarrow> hd (hd (zone_runs ps)) = hd ps"
  by (cases ps) simp_all

lemma zone_runs_maximal: "distinct_adj (map (\<lambda>r. zone (snd (hd r))) (zone_runs ps))"
proof (induction ps rule: zone_runs.induct)
  case 1
  then show ?case by simp
next
  case (2 p ps)
  let ?dw = "dropWhile (\<lambda>q. zone (snd q) = zone (snd p)) ps"
  show ?case
  proof (cases ?dw)
    case Nil
    then show ?thesis by (simp del: dropWhile_eq_Nil_conv)
  next
    case (Cons q qs)
    then have "zone (snd q) \<noteq> zone (snd p)"
      using hd_dropWhile [of "\<lambda>q. zone (snd q) = zone (snd p)" ps] by auto
    with 2 Cons show ?thesis
      by (simp add: distinct_adj_Cons)
  qed
qed

lemma buildLayers_acc: "buildLayers acc cur ps = acc @ buildLayers [] cur ps"
proof (induction ps arbitrary: acc cur)
  case Nil
  then show ?case by simp
next
  case (Cons p ps)
  obtain d z where p: "p = (d, z)" by (cases p)
  let ?new = "\<lparr>startDepth = d, endDepth = d, layer_zone = z\<rparr>"
  show ?case
  proof (cases "zone z = zone (layer_zone cur)")
    case True
    have "buildLayers acc (cur\<lparr>endDepth := d\<rparr>) ps = acc @ buildLayers [] (cur\<lparr>endDepth := d\<rparr>) ps"
      by (rule Cons.IH)
    with True show ?thesis by (simp add: p)
  next
    case False
    have a: "buildLayers (acc @ [cur]) ?new ps = (acc @ [cur]) @ buildLayers [] ?new ps"
      by (rule Cons.IH)
    have b: "buildLayers [cur] ?new ps = [cur] @ buildLayers [] ?new ps"
      by (rule Cons.IH)
    from False show ?thesis by (simp add: p a b)
  qed
qed

lemma buildLayers_runs:
  "buildLayers [] \<lparr>startDepth = s, endDepth = e, layer_zone = z\<rparr> ps
   = \<lparr>startDepth = s,
       endDepth = (if takeWhile (\<lambda>q. zone (snd q) = zone z) ps = [] then e
                   else fst (last (takeWhile (\<lambda>q. zone (snd q) = zone z) ps))),
       layer_zone = z\<rparr>
     # map run_layer (zone_runs (dropWhile (\<lambda>q. zone (snd q) = zone z) ps))"
proof (induction ps arbitrary: s e z)
  case Nil
  then show ?case by simp
next
  case (Cons p ps)
  obtain d z' where p: "p = (d, z')" by (cases p)
  show ?case
  proof (cases "zone z' = zone z")
    case True
    then show ?thesis
      using Cons.IH [of s d z] by (simp add: p)
  next
    case False
    have "buildLayers [] \<lparr>startDepth = s, endDepth = e, layer_zone = z\<rparr> (p # ps)
          = \<lparr>startDepth = s, endDepth = e, layer_zone = z\<rparr>
            # buildLayers [] \<lparr>startDepth = d, endDepth = d, layer_zone = z'\<rparr> ps"
      using False buildLayers_acc [of "[\<lparr>startDepth = s, endDepth = e, layer_zone = z\<rparr>]"]
      by (simp add: p)
    then show ?thesis
      using False Cons.IH [of d d z'] by (simp add: p run_layer_def)
  qed
qed

lemma buildLayers_spec:
  "buildLayers [] \<lparr>startDepth = d, endDepth = d, layer_zone = z\<rparr> ps
   = map run_layer (zone_runs ((d, z) # ps))"
  by (simp add: buildLayers_runs run_layer_def)


lemma run_layer_Cons:
  "run_layer (p # r) = \<lparr>startDepth = fst p, endDepth = fst (last (p # r)), layer_zone = snd p\<rparr>"
  by (simp add: run_layer_def)

lemma sorted_fst_hd_le: "sorted (map fst ps) \<Longrightarrow> q \<in> set ps \<Longrightarrow> fst (hd ps) \<le> fst q"
  by (cases ps) auto

lemma sorted_fst_le_last: "sorted (map fst ps) \<Longrightarrow> q \<in> set ps \<Longrightarrow> fst q \<le> fst (last ps)"
proof (induction ps)
  case Nil
  then show ?case by simp
next
  case (Cons p ps)
  then show ?case by (cases ps) auto
qed

lemma depth_ordered_Cons:
  "depth_ordered (l # ls) \<longleftrightarrow>
     startDepth l \<le> endDepth l \<and> (\<forall>m \<in> set ls. endDepth l \<le> startDepth m) \<and> depth_ordered ls"
  by (auto simp: depth_ordered_def)

lemma spec_layers_ordered:
  "sorted (map fst ps) \<Longrightarrow> depth_ordered (map run_layer (zone_runs ps))"
proof (induction ps rule: zone_runs.induct)
  case 1
  then show ?case by (simp add: depth_ordered_def)
next
  case (2 p ps)
  let ?same = "\<lambda>q. zone (snd q) = zone (snd p)"
  let ?tw = "takeWhile ?same ps" and ?dw = "dropWhile ?same ps"
  have split: "p # ps = (p # ?tw) @ ?dw" by simp
  from 2(2) have sorted_all: "sorted (map fst ((p # ?tw) @ ?dw))"
    by (simp only: split [symmetric])
  then have "sorted (map fst (p # ?tw) @ map fst ?dw)"
    by (simp only: map_append)
  then have "sorted (map fst (p # ?tw)) \<and> sorted (map fst ?dw)
      \<and> (\<forall>x \<in> set (map fst (p # ?tw)). \<forall>y \<in> set (map fst ?dw). x \<le> y)"
    by (rule sorted_append [THEN iffD1])
  then have s1: "sorted (map fst (p # ?tw))" and s2: "sorted (map fst ?dw)"
    and cross0: "\<forall>x \<in> set (map fst (p # ?tw)). \<forall>y \<in> set (map fst ?dw). x \<le> y"
    by blast+
  from cross0 have cross: "\<forall>a \<in> set (p # ?tw). \<forall>b \<in> set ?dw. fst a \<le> fst b"
    by (metis (no_types, lifting) imageI set_map)
  define L0 where "L0 = run_layer (p # ?tw)"
  define Ls where "Ls = map run_layer (zone_runs ?dw)"
  have L0: "startDepth L0 = fst p" "endDepth L0 = fst (last (p # ?tw))"
    by (simp_all add: L0_def run_layer_def)
  have first: "startDepth L0 \<le> endDepth L0"
    using sorted_fst_le_last [OF s1, of p] by (simp only: L0) simp
  have last_in: "last (p # ?tw) \<in> set (p # ?tw)"
    by (rule last_in_set) simp
  have later: "\<forall>l \<in> set Ls. endDepth L0 \<le> startDepth l"
  proof
    fix l
    assume "l \<in> set Ls"
    then obtain r where r: "r \<in> set (zone_runs ?dw)" and l: "l = run_layer r"
      by (auto simp: Ls_def)
    from r have "r \<noteq> []" and "set r \<subseteq> set ?dw"
      using zone_runs_same_zone [of r ?dw] zone_runs_subset [of r ?dw] by blast+
    then have "hd r \<in> set ?dw"
      by (metis hd_in_set subsetD)
    with cross last_in have "fst (last (p # ?tw)) \<le> fst (hd r)"
      by blast
    then show "endDepth L0 \<le> startDepth l"
      by (simp only: L0) (simp add: l run_layer_def)
  qed
  have ih: "depth_ordered Ls"
    unfolding Ls_def using s2 by (rule 2(1))
  have eq: "map run_layer (zone_runs (p # ps)) = L0 # Ls"
    by (simp add: L0_def Ls_def)
  show ?case
    unfolding eq depth_ordered_Cons using first later ih by blast
qed

lemma spec_layers_first:
  "startDepth (hd (map run_layer (zone_runs (p # ps)))) = fst p"
  by (simp add: run_layer_Cons)

lemma spec_layers_last:
  "ps \<noteq> [] \<Longrightarrow> endDepth (last (map run_layer (zone_runs ps))) = fst (last ps)"
proof (induction ps rule: zone_runs.induct)
  case 1
  then show ?case by simp
next
  case (2 p ps)
  let ?same = "\<lambda>q. zone (snd q) = zone (snd p)"
  let ?tw = "takeWhile ?same ps" and ?dw = "dropWhile ?same ps"
  have split: "p # ps = (p # ?tw) @ ?dw" by simp
  show ?case
  proof (cases "?dw = []")
    case True
    define r where "r = p # ?tw"
    from True have "ps = ?tw"
      by (metis append_Nil2 takeWhile_dropWhile_id)
    then have e2: "p # ps = r"
      by (simp add: r_def)
    have e1: "map run_layer (zone_runs (p # ps)) = [run_layer r]"
      using True by (simp add: r_def del: dropWhile_eq_Nil_conv)
    have "endDepth (last (map run_layer (zone_runs (p # ps)))) = endDepth (run_layer r)"
      by (simp add: e1 del: zone_runs.simps)
    also have "\<dots> = fst (last r)"
      by (simp add: run_layer_def)
    also have "\<dots> = fst (last (p # ps))"
      by (simp only: e2)
    finally show ?thesis .
  next
    case False
    then have runs_ne: "zone_runs ?dw \<noteq> []"
      by (cases ?dw) simp_all
    have "endDepth (last (map run_layer (zone_runs ?dw))) = fst (last ?dw)"
      using False by (rule 2(1))
    moreover have "last (p # ps) = last ?dw"
      by (subst split) (rule last_appendR [OF False])
    moreover have "last (map run_layer (zone_runs (p # ps))) = last (map run_layer (zone_runs ?dw))"
      using runs_ne by simp
    ultimately show ?thesis
      by simp
  qed
qed


lemma depth_ordered_append:
  "depth_ordered (xs @ ys) \<longleftrightarrow>
     depth_ordered xs \<and> depth_ordered ys \<and> (\<forall>a \<in> set xs. \<forall>b \<in> set ys. endDepth a \<le> startDepth b)"
  by (auto simp: depth_ordered_def sorted_wrt_append)

lemma depth_ordered_single: "depth_ordered [x] \<longleftrightarrow> startDepth x \<le> endDepth x"
  by (simp add: depth_ordered_def)

lemma depth_ordered_absorb:
  assumes "depth_ordered ((ms @ [x]) @ l # ls)"
  shows "depth_ordered ((ms @ [x\<lparr>endDepth := endDepth l\<rparr>]) @ ls)"
proof -
  from assms have ms: "depth_ordered ms" and ls: "depth_ordered ls"
    and x: "startDepth x \<le> endDepth x" and l: "startDepth l \<le> endDepth l"
    and ms_x: "\<forall>a \<in> set ms. endDepth a \<le> startDepth x"
    and ms_ls: "\<forall>a \<in> set ms. \<forall>b \<in> set ls. endDepth a \<le> startDepth b"
    and x_l: "endDepth x \<le> startDepth l"
    and l_ls: "\<forall>b \<in> set ls. endDepth l \<le> startDepth b"
    by (auto simp: depth_ordered_append depth_ordered_Cons depth_ordered_single)
  from x x_l l have "startDepth x \<le> endDepth l" by simp
  with ms ls ms_x ms_ls l_ls show ?thesis
    by (auto simp: depth_ordered_append depth_ordered_single depth_ordered_Cons)
qed

lemma absorbThin_snoc:
  "absorbThin m (ms @ [x]) (l # ls) =
     (if nlt (layer_thickness l) (double m)
      then absorbThin m (ms @ [x\<lparr>endDepth := endDepth l\<rparr>]) ls
      else absorbThin m ((ms @ [x]) @ [l]) ls)"
  by simp

lemma absorbThin_ordered:
  "depth_ordered ((ms @ [x]) @ ls) \<Longrightarrow>
   depth_ordered (absorbThin m (ms @ [x]) ls)
   \<and> absorbThin m (ms @ [x]) ls \<noteq> []
   \<and> startDepth (hd (absorbThin m (ms @ [x]) ls)) = startDepth (hd (ms @ [x]))
   \<and> endDepth (last (absorbThin m (ms @ [x]) ls)) = endDepth (last ((ms @ [x]) @ ls))"
proof (induction ls arbitrary: ms x)
  case Nil
  then show ?case by simp
next
  case (Cons l ls)
  show ?case
  proof (cases "nlt (layer_thickness l) (double m)")
    case True
    let ?x = "x\<lparr>endDepth := endDepth l\<rparr>"
    have step: "absorbThin m (ms @ [x]) (l # ls) = absorbThin m (ms @ [?x]) ls"
      using True by (simp only: absorbThin_snoc if_True)
    have "depth_ordered ((ms @ [?x]) @ ls)"
      using Cons.prems by (rule depth_ordered_absorb)
    then have ih: "depth_ordered (absorbThin m (ms @ [?x]) ls)
       \<and> absorbThin m (ms @ [?x]) ls \<noteq> []
       \<and> startDepth (hd (absorbThin m (ms @ [?x]) ls)) = startDepth (hd (ms @ [?x]))
       \<and> endDepth (last (absorbThin m (ms @ [?x]) ls)) = endDepth (last ((ms @ [?x]) @ ls))"
      by (rule Cons.IH)
    have h: "startDepth (hd (ms @ [?x])) = startDepth (hd (ms @ [x]))"
      by (cases ms) simp_all
    have e: "endDepth (last ((ms @ [?x]) @ ls)) = endDepth (last ((ms @ [x]) @ l # ls))"
      by (cases ls) simp_all
    show ?thesis
      unfolding step using ih h e by simp
  next
    case False
    have step: "absorbThin m (ms @ [x]) (l # ls) = absorbThin m ((ms @ [x]) @ [l]) ls"
      using False by (simp only: absorbThin_snoc if_False)
    have "depth_ordered (((ms @ [x]) @ [l]) @ ls)"
      using Cons.prems by simp
    then have ih: "depth_ordered (absorbThin m ((ms @ [x]) @ [l]) ls)
       \<and> absorbThin m ((ms @ [x]) @ [l]) ls \<noteq> []
       \<and> startDepth (hd (absorbThin m ((ms @ [x]) @ [l]) ls)) = startDepth (hd ((ms @ [x]) @ [l]))
       \<and> endDepth (last (absorbThin m ((ms @ [x]) @ [l]) ls)) = endDepth (last (((ms @ [x]) @ [l]) @ ls))"
      by (rule Cons.IH)
    have h: "startDepth (hd ((ms @ [x]) @ [l])) = startDepth (hd (ms @ [x]))"
      by (cases ms) simp_all
    have e: "endDepth (last (((ms @ [x]) @ [l]) @ ls)) = endDepth (last ((ms @ [x]) @ l # ls))"
      by simp
    show ?thesis
      unfolding step using ih h e by simp
  qed
qed


lemma absorbThin_absorb_runs: "absorbThin m (ms @ [x]) ls = ms @ absorb_runs m (x # ls)"
proof (induction ls arbitrary: ms x)
  case Nil
  then show ?case by simp
next
  case (Cons l ls)
  let ?tw = "takeWhile (thin m) ls" and ?dw = "dropWhile (thin m) ls"
  show ?case
  proof (cases "nlt (layer_thickness l) (double m)")
    case True
    let ?x = "x\<lparr>endDepth := endDepth l\<rparr>"
    have step: "absorbThin m (ms @ [x]) (l # ls) = absorbThin m (ms @ [?x]) ls"
      using True by (simp only: absorbThin_snoc if_True)
    have ih: "absorbThin m (ms @ [?x]) ls = ms @ absorb_runs m (?x # ls)"
      by (rule Cons.IH)
    have thin: "thin m l"
      using True by (simp add: thin_def)
    have e: "endDepth (last (?x # ?tw)) = endDepth (last (x # l # ?tw))"
      by (cases ?tw) simp_all
    have "absorb_runs m (?x # ls) = ?x\<lparr>endDepth := endDepth (last (?x # ?tw))\<rparr> # absorb_runs m ?dw"
      by simp
    also have "\<dots> = x\<lparr>endDepth := endDepth (last (x # l # ?tw))\<rparr> # absorb_runs m ?dw"
      by (simp only: e) simp
    also have "\<dots> = absorb_runs m (x # l # ls)"
      using thin by simp
    finally show ?thesis
      by (simp only: step ih)
  next
    case False
    have step: "absorbThin m (ms @ [x]) (l # ls) = absorbThin m ((ms @ [x]) @ [l]) ls"
      using False by (simp only: absorbThin_snoc if_False)
    have ih: "absorbThin m ((ms @ [x]) @ [l]) ls = (ms @ [x]) @ absorb_runs m (l # ls)"
      by (rule Cons.IH)
    have thin: "\<not> thin m l"
      using False by (simp add: thin_def)
    have "absorb_runs m (x # l # ls) = x # absorb_runs m (l # ls)"
      using thin by simp
    then show ?thesis
      by (simp only: step ih) simp
  qed
qed

lemma absorb_runs_short: "length ls \<le> 1 \<Longrightarrow> absorb_runs m ls = ls"
proof (cases ls)
  case Nil
  then show ?thesis by simp
next
  case (Cons x xs)
  assume "length ls \<le> 1"
  with Cons have "xs = []" by simp
  with Cons show ?thesis by simp
qed

lemma filter_takeWhile_not: "filter (\<lambda>r. \<not> P r) (takeWhile P xs) = []"
  by (induction xs) simp_all

lemma retained_dropWhile:
  "retained m (dropWhile (thin m) xs) = filter (\<lambda>r. \<not> thin m r) xs"
proof (induction xs)
  case Nil
  then show ?case by (simp add: retained_def)
next
  case (Cons y ys)
  then show ?case by (simp add: retained_def)
qed

lemma absorb_runs_starts:
  "map start_zone (absorb_runs m ls) = map start_zone (retained m ls)"
proof (induction m ls rule: absorb_runs.induct)
  case (1 m)
  then show ?case by (simp add: retained_def)
next
  case (2 m l ls)
  have "map start_zone (absorb_runs m (l # ls))
        = start_zone l # map start_zone (absorb_runs m (dropWhile (thin m) ls))"
    by (simp add: start_zone_def)
  also have "\<dots> = start_zone l # map start_zone (retained m (dropWhile (thin m) ls))"
    by (simp only: 2)
  also have "\<dots> = start_zone l # map start_zone (filter (\<lambda>r. \<not> thin m r) ls)"
    by (simp only: retained_dropWhile)
  also have "\<dots> = map start_zone (retained m (l # ls))"
    by (simp add: retained_def)
  finally show ?case .
qed

lemma absorb_runs_none_thin:
  "\<forall>r \<in> set (tl ls). \<not> thin m r \<Longrightarrow> absorb_runs m ls = ls"
proof (induction m ls rule: absorb_runs.induct)
  case (1 m)
  then show ?case by simp
next
  case (2 m l ls)
  from 2(2) have all: "\<forall>r \<in> set ls. \<not> thin m r" by simp
  then have tw: "takeWhile (thin m) ls = []"
    by (cases ls) simp_all
  from all have dw: "dropWhile (thin m) ls = ls"
    by (cases ls) simp_all
  have "\<forall>r \<in> set (tl ls). \<not> thin m r"
    using all by (cases ls) simp_all
  then have "absorb_runs m ls = ls"
    using 2(1) by (simp only: dw)
  then show ?case
    by (simp add: tw dw del: dropWhile_eq_Nil_conv)
qed

lemma depth_ordered_hd_start:
  "depth_ordered (x # ys) \<Longrightarrow> r \<in> set (x # ys) \<Longrightarrow> startDepth x \<le> startDepth r"
  by (auto simp: depth_ordered_Cons)

lemma depth_ordered_last_end:
  "depth_ordered ys \<Longrightarrow> r \<in> set ys \<Longrightarrow> endDepth r \<le> endDepth (last ys)"
proof (induction ys)
  case Nil
  then show ?case by simp
next
  case (Cons y ys)
  show ?case
  proof (cases "ys = []")
    case True
    with Cons.prems show ?thesis by simp
  next
    case False
    then have li: "last ys \<in> set ys" by (rule last_in_set)
    from Cons.prems(1) have o: "depth_ordered ys"
      and y: "\<forall>b \<in> set ys. endDepth y \<le> startDepth b"
      and se: "\<forall>b \<in> set ys. startDepth b \<le> endDepth b"
      by (auto simp: depth_ordered_Cons depth_ordered_def)
    show ?thesis
    proof (cases "r = y")
      case True
      from y li have "endDepth y \<le> startDepth (last ys)" by blast
      moreover from se li have "startDepth (last ys) \<le> endDepth (last ys)" by blast
      ultimately show ?thesis using True False by simp
    next
      case False
      with Cons.prems(2) have "r \<in> set ys" by simp
      with o have "endDepth r \<le> endDepth (last ys)" by (rule Cons.IH)
      then show ?thesis using \<open>ys \<noteq> []\<close> by simp
    qed
  qed
qed

lemma absorb_runs_cover:
  "depth_ordered ls \<Longrightarrow> r \<in> set ls \<Longrightarrow>
   \<exists>l \<in> set (absorb_runs m ls). startDepth l \<le> startDepth r \<and> endDepth r \<le> endDepth l"
proof (induction m ls rule: absorb_runs.induct)
  case (1 m)
  then show ?case by simp
next
  case (2 m x xs)
  let ?tw = "takeWhile (thin m) xs" and ?dw = "dropWhile (thin m) xs"
  define L where "L = x\<lparr>endDepth := endDepth (last (x # ?tw))\<rparr>"
  have eq: "absorb_runs m (x # xs) = L # absorb_runs m ?dw"
    by (simp add: L_def)
  have split: "x # xs = (x # ?tw) @ ?dw" by simp
  from 2(2) have "depth_ordered ((x # ?tw) @ ?dw)"
    by (simp only: split [symmetric])
  then have o1: "depth_ordered (x # ?tw)" and o2: "depth_ordered ?dw"
    by (simp_all only: depth_ordered_append)
  from 2(3) have "r \<in> set ((x # ?tw) @ ?dw)"
    by (simp only: split [symmetric])
  then consider "r \<in> set (x # ?tw)" | "r \<in> set ?dw"
    by (auto simp only: set_append)
  then show ?case
  proof cases
    case 1
    have "startDepth x \<le> startDepth r"
      using o1 1 by (rule depth_ordered_hd_start)
    moreover have "endDepth r \<le> endDepth (last (x # ?tw))"
      using o1 1 by (rule depth_ordered_last_end)
    ultimately have "startDepth L \<le> startDepth r \<and> endDepth r \<le> endDepth L"
      by (simp add: L_def)
    then show ?thesis
      unfolding eq by (meson list.set_intros(1))
  next
    case 2
    from "2.IH" [OF o2 2] obtain l where "l \<in> set (absorb_runs m ?dw)"
      and "startDepth l \<le> startDepth r \<and> endDepth r \<le> endDepth l"
      by blast
    then show ?thesis
      unfolding eq by (meson list.set_intros(2))
  qed
qed

lemma zone_runs_cover:
  "sorted (map fst ps) \<Longrightarrow> q \<in> set ps \<Longrightarrow>
   \<exists>l \<in> set (map run_layer (zone_runs ps)). startDepth l \<le> fst q \<and> fst q \<le> endDepth l"
proof (induction ps rule: zone_runs.induct)
  case 1
  then show ?case by simp
next
  case (2 p ps)
  let ?same = "\<lambda>q. zone (snd q) = zone (snd p)"
  let ?tw = "takeWhile ?same ps" and ?dw = "dropWhile ?same ps"
  define L0 where "L0 = run_layer (p # ?tw)"
  define Ls where "Ls = map run_layer (zone_runs ?dw)"
  have eq: "map run_layer (zone_runs (p # ps)) = L0 # Ls"
    by (simp add: L0_def Ls_def)
  have L0: "startDepth L0 = fst p" "endDepth L0 = fst (last (p # ?tw))"
    by (simp_all add: L0_def run_layer_def)
  have split: "p # ps = (p # ?tw) @ ?dw" by simp
  from 2(2) have "sorted (map fst ((p # ?tw) @ ?dw))"
    by (simp only: split [symmetric])
  then have "sorted (map fst (p # ?tw) @ map fst ?dw)"
    by (simp only: map_append)
  then have "sorted (map fst (p # ?tw)) \<and> sorted (map fst ?dw)
      \<and> (\<forall>x \<in> set (map fst (p # ?tw)). \<forall>y \<in> set (map fst ?dw). x \<le> y)"
    by (rule sorted_append [THEN iffD1])
  then have s1: "sorted (map fst (p # ?tw))" and s2: "sorted (map fst ?dw)"
    by blast+
  from 2(3) have "q \<in> set ((p # ?tw) @ ?dw)"
    by (simp only: split [symmetric])
  then consider "q \<in> set (p # ?tw)" | "q \<in> set ?dw"
    by (auto simp only: set_append)
  then show ?case
  proof cases
    case 1
    have "fst (hd (p # ?tw)) \<le> fst q"
      using s1 1 by (rule sorted_fst_hd_le)
    moreover have "fst q \<le> fst (last (p # ?tw))"
      using s1 1 by (rule sorted_fst_le_last)
    ultimately have "startDepth L0 \<le> fst q \<and> fst q \<le> endDepth L0"
      by (simp only: L0 list.sel)
    then show ?thesis
      unfolding eq by (meson list.set_intros(1))
  next
    case 2
    have "\<exists>l \<in> set Ls. startDepth l \<le> fst q \<and> fst q \<le> endDepth l"
      unfolding Ls_def using s2 2 by (rule "2.IH")
    then show ?thesis
      unfolding eq by (meson list.set_intros(2))
  qed
qed

lemma sorted_hd_Min: "sorted (map fst ys) \<Longrightarrow> ys \<noteq> [] \<Longrightarrow> fst (hd ys) = Min (fst ` set ys)"
proof -
  assume s: "sorted (map fst ys)" and ne: "ys \<noteq> []"
  have "Min (fst ` set ys) = fst (hd ys)"
  proof (rule Min_eqI)
    show "finite (fst ` set ys)" by simp
  next
    fix y assume "y \<in> fst ` set ys"
    then show "fst (hd ys) \<le> y" using sorted_fst_hd_le [OF s] by auto
  next
    show "fst (hd ys) \<in> fst ` set ys" using ne by simp
  qed
  then show ?thesis by simp
qed

lemma sorted_last_Max: "sorted (map fst ys) \<Longrightarrow> ys \<noteq> [] \<Longrightarrow> fst (last ys) = Max (fst ` set ys)"
proof -
  assume s: "sorted (map fst ys)" and ne: "ys \<noteq> []"
  have "Max (fst ` set ys) = fst (last ys)"
  proof (rule Max_eqI)
    show "finite (fst ` set ys)" by simp
  next
    fix y assume "y \<in> fst ` set ys"
    then show "y \<le> fst (last ys)" using sorted_fst_le_last [OF s] by auto
  next
    show "fst (last ys) \<in> fst ` set ys" using ne by simp
  qed
  then show ?thesis by simp
qed

lemma sort_key_Nil_iff: "sort_key f xs = [] \<longleftrightarrow> xs = []"
  by (metis length_0_conv length_sort)

lemma spec_layers_Nil_iff: "spec_layers pts = [] \<longleftrightarrow> valid_points pts = []"
proof -
  have "zone_runs ps = [] \<longleftrightarrow> ps = []" for ps
    by (cases ps) simp_all
  then show ?thesis
    by (simp add: spec_layers_def sort_key_Nil_iff)
qed

lemma mergeLayers_spec:
  "mergeLayers pts m =
     (if 0 < m \<and> 1 < length (spec_layers pts)
      then absorbThin m [hd (spec_layers pts)] (tl (spec_layers pts))
      else spec_layers pts)"
proof (cases "sort_key fst (valid_points pts)")
  case Nil
  then have "valid_points pts = []"
    by (simp add: sort_key_Nil_iff)
  then show ?thesis
    by (simp add: mergeLayers_def spec_layers_def)
next
  case (Cons p ps)
  obtain d z where p: "p = (d, z)" by (cases p)
  from Cons have v: "valid_points pts \<noteq> []"
    by (metis list.distinct(1) sort_key_Nil_iff)
  then have ne: "pts \<noteq> []"
    by (auto simp: valid_points_def)
  have sl: "spec_layers pts = buildLayers [] \<lparr>startDepth = d, endDepth = d, layer_zone = z\<rparr> ps"
    by (simp only: spec_layers_def Cons p buildLayers_spec)
  show ?thesis
    unfolding sl [symmetric] mergeLayers_def
    using v ne by (simp add: Cons p Let_def sl [symmetric])
qed

lemma spec_layers_depth_ordered: "depth_ordered (spec_layers pts)"
  unfolding spec_layers_def by (rule spec_layers_ordered) (rule sorted_sort_key)

lemma spec_layers_cover:
  assumes "valid_points pts \<noteq> []"
  shows "startDepth (hd (spec_layers pts)) = Min (fst ` set (valid_points pts))
         \<and> endDepth (last (spec_layers pts)) = Max (fst ` set (valid_points pts))"
proof -
  let ?s = "sort_key fst (valid_points pts)"
  have ne: "?s \<noteq> []" using assms by (simp add: sort_key_Nil_iff)
  have srt: "sorted (map fst ?s)" by (rule sorted_sort_key)
  have set: "set ?s = set (valid_points pts)" by simp
  obtain p ps where s: "?s = p # ps" using ne by (cases ?s) auto
  have "startDepth (hd (spec_layers pts)) = fst (hd ?s)"
    unfolding spec_layers_def s by (simp only: spec_layers_first list.sel)
  moreover have "endDepth (last (spec_layers pts)) = fst (last ?s)"
    unfolding spec_layers_def using ne by (rule spec_layers_last)
  ultimately show ?thesis
    using sorted_hd_Min [OF srt ne] sorted_last_Max [OF srt ne] by (simp only: set)
qed

lemma mergeLayers_absorb_runs:
  "mergeLayers pts m = (if 0 < m then absorb_runs m (spec_layers pts) else spec_layers pts)"
proof (cases "0 < m \<and> 1 < length (spec_layers pts)")
  case True
  then obtain x ls where sl: "spec_layers pts = x # ls"
    by (cases "spec_layers pts") auto
  have "absorbThin m ([] @ [x]) ls = [] @ absorb_runs m (x # ls)"
    by (rule absorbThin_absorb_runs)
  then show ?thesis
    using True by (simp add: mergeLayers_spec sl)
next
  case False
  then have ml: "mergeLayers pts m = spec_layers pts"
    by (simp only: mergeLayers_spec if_False)
  show ?thesis
  proof (cases "0 < m")
    case True
    with False have "length (spec_layers pts) \<le> 1" by simp
    then have "absorb_runs m (spec_layers pts) = spec_layers pts"
      by (rule absorb_runs_short)
    with True ml show ?thesis by simp
  next
    case False
    with ml show ?thesis by simp
  qed
qed

lemma mergeLayers_facts:
  "depth_ordered (mergeLayers pts m)
   \<and> (mergeLayers pts m = [] \<longleftrightarrow> spec_layers pts = [])
   \<and> startDepth (hd (mergeLayers pts m)) = startDepth (hd (spec_layers pts))
   \<and> endDepth (last (mergeLayers pts m)) = endDepth (last (spec_layers pts))"
proof (cases "0 < m \<and> 1 < length (spec_layers pts)")
  case False
  then have "mergeLayers pts m = spec_layers pts"
    by (simp only: mergeLayers_spec if_False)
  then show ?thesis
    using spec_layers_depth_ordered [of pts] by simp
next
  case True
  then obtain x ls where sl: "spec_layers pts = x # ls"
    by (cases "spec_layers pts") auto
  have ml: "mergeLayers pts m = absorbThin m ([] @ [x]) ls"
    using True by (simp add: mergeLayers_spec sl)
  have "depth_ordered (([] @ [x]) @ ls)"
    using spec_layers_depth_ordered [of pts] by (simp add: sl)
  then have a: "depth_ordered (absorbThin m ([] @ [x]) ls)
     \<and> absorbThin m ([] @ [x]) ls \<noteq> []
     \<and> startDepth (hd (absorbThin m ([] @ [x]) ls)) = startDepth (hd ([] @ [x]))
     \<and> endDepth (last (absorbThin m ([] @ [x]) ls)) = endDepth (last (([] @ [x]) @ ls))"
    by (rule absorbThin_ordered)
  show ?thesis
    unfolding ml sl using a by simp
qed

lemma mergeLayers_starts:
  "map start_zone (mergeLayers pts m)
   = map start_zone (if 0 < m then retained m (spec_layers pts) else spec_layers pts)"
  by (simp add: mergeLayers_absorb_runs absorb_runs_starts)

lemma mergeLayers_no_thin:
  assumes "m \<le> 0 \<or> (\<forall>r \<in> set (tl (spec_layers pts)). \<not> thin m r)"
  shows "mergeLayers pts m = spec_layers pts"
proof (cases "0 < m")
  case False
  then show ?thesis by (simp add: mergeLayers_absorb_runs)
next
  case True
  with assms have "\<forall>r \<in> set (tl (spec_layers pts)). \<not> thin m r" by simp
  then have "absorb_runs m (spec_layers pts) = spec_layers pts"
    by (rule absorb_runs_none_thin)
  with True show ?thesis by (simp add: mergeLayers_absorb_runs)
qed

lemma mergeLayers_cover_points:
  assumes "p \<in> set (valid_points pts)"
  shows "\<exists>l \<in> set (mergeLayers pts m). startDepth l \<le> fst p \<and> fst p \<le> endDepth l"
proof -
  let ?s = "sort_key fst (valid_points pts)"
  have "sorted (map fst ?s)" by (rule sorted_sort_key)
  moreover have "p \<in> set ?s" using assms by simp
  ultimately have "\<exists>l \<in> set (map run_layer (zone_runs ?s)). startDepth l \<le> fst p \<and> fst p \<le> endDepth l"
    by (rule zone_runs_cover)
  then obtain r where r: "r \<in> set (spec_layers pts)"
    and rp: "startDepth r \<le> fst p \<and> fst p \<le> endDepth r"
    unfolding spec_layers_def by blast
  show ?thesis
  proof (cases "0 < m")
    case False
    then have "mergeLayers pts m = spec_layers pts"
      by (simp add: mergeLayers_absorb_runs)
    with r rp show ?thesis by auto
  next
    case True
    then have ml: "mergeLayers pts m = absorb_runs m (spec_layers pts)"
      by (simp add: mergeLayers_absorb_runs)
    from absorb_runs_cover [OF spec_layers_depth_ordered r, of m]
    obtain l where "l \<in> set (absorb_runs m (spec_layers pts))"
      and "startDepth l \<le> startDepth r \<and> endDepth r \<le> endDepth l"
      by blast
    with rp show ?thesis
      unfolding ml by (meson order_trans)
  qed
qed

lemma valid_points_all:
  "\<forall>p \<in> set pts. point_zone p \<noteq> None \<Longrightarrow> fst ` set (valid_points pts) = depth ` set pts"
  by (induction pts) (auto simp: valid_points_def split: option.splits)

text \<open>
  C3, amended. For every point sequence, \<open>mergeLayers\<close> returns layers that are in depth
  order and do not overlap; there is a layer exactly when a point has a zone, and then the
  first layer starts at the least and the last layer ends at the greatest depth of the
  points with a zone (of all points, when every zone is non-null), and the depth of every
  such point lies in a layer. The depths between the end of a layer and the start of the
  next lie in no layer: the layers do not cover the interval. The layers are, in order,
  the first maximal run of same-zone points and every later maximal run whose thickness
  (end depth minus start depth, as the doubles subtract) is not below \<open>minThickness\<close>,
  each with the start depth and the zone of its run and extended to the end depth of the
  last of the thinner runs that follow it directly, whatever their zones. They are exactly
  the maximal runs when \<open>minThickness\<close> is not positive or no run after the first is
  thinner than \<open>minThickness\<close>.
\<close>

theorem mergeLayers_ordered_cover:
  "depth_ordered (mergeLayers pts m)
   \<and> (mergeLayers pts m = [] \<longleftrightarrow> valid_points pts = [])
   \<and> (valid_points pts \<noteq> [] \<longrightarrow>
        startDepth (hd (mergeLayers pts m)) = Min (fst ` set (valid_points pts))
        \<and> endDepth (last (mergeLayers pts m)) = Max (fst ` set (valid_points pts)))
   \<and> (\<forall>p \<in> set (valid_points pts).
        \<exists>l \<in> set (mergeLayers pts m). startDepth l \<le> fst p \<and> fst p \<le> endDepth l)
   \<and> ((\<forall>p \<in> set pts. point_zone p \<noteq> None) \<longrightarrow>
        fst ` set (valid_points pts) = depth ` set pts)
   \<and> mergeLayers pts m = (if 0 < m then absorb_runs m (spec_layers pts) else spec_layers pts)
   \<and> map start_zone (mergeLayers pts m)
       = map start_zone (if 0 < m then retained m (spec_layers pts) else spec_layers pts)
   \<and> ((m \<le> 0 \<or> (\<forall>r \<in> set (tl (spec_layers pts)). \<not> thin m r)) \<longrightarrow>
        mergeLayers pts m = spec_layers pts)"
proof (intro conjI impI ballI)
  show "depth_ordered (mergeLayers pts m)"
    using mergeLayers_facts [of pts m] by blast
next
  show "mergeLayers pts m = [] \<longleftrightarrow> valid_points pts = []"
    using mergeLayers_facts [of pts m] spec_layers_Nil_iff [of pts] by blast
next
  assume "valid_points pts \<noteq> []"
  then show "startDepth (hd (mergeLayers pts m)) = Min (fst ` set (valid_points pts))"
    using mergeLayers_facts [of pts m] spec_layers_cover [of pts] by simp
next
  assume "valid_points pts \<noteq> []"
  then show "endDepth (last (mergeLayers pts m)) = Max (fst ` set (valid_points pts))"
    using mergeLayers_facts [of pts m] spec_layers_cover [of pts] by simp
next
  fix p
  assume "p \<in> set (valid_points pts)"
  then show "\<exists>l \<in> set (mergeLayers pts m). startDepth l \<le> fst p \<and> fst p \<le> endDepth l"
    by (rule mergeLayers_cover_points)
next
  assume "\<forall>p \<in> set pts. point_zone p \<noteq> None"
  then show "fst ` set (valid_points pts) = depth ` set pts"
    by (rule valid_points_all)
next
  show "mergeLayers pts m = (if 0 < m then absorb_runs m (spec_layers pts) else spec_layers pts)"
    by (rule mergeLayers_absorb_runs)
next
  show "map start_zone (mergeLayers pts m)
       = map start_zone (if 0 < m then retained m (spec_layers pts) else spec_layers pts)"
    by (rule mergeLayers_starts)
next
  assume "m \<le> 0 \<or> (\<forall>r \<in> set (tl (spec_layers pts)). \<not> thin m r)"
  then show "mergeLayers pts m = spec_layers pts"
    by (rule mergeLayers_no_thin)
qed

lemma three_points_sorted:
  "sort_key fst (valid_points three_points)
   = [(0, ROBERTSON_ZONES ! 5), (1 / 10, ROBERTSON_ZONES ! 5), (3 / 10, ROBERTSON_ZONES ! 2)]"
  by (simp add: three_points_def valid_points_def)

lemma three_points_zones: "zone (ROBERTSON_ZONES ! 2) \<noteq> zone (ROBERTSON_ZONES ! 5)"
  by (simp add: ROBERTSON_ZONES_def)

lemma spec_layers_three_points:
  "spec_layers three_points
   = [\<lparr>startDepth = 0, endDepth = 1 / 10, layer_zone = ROBERTSON_ZONES ! 5\<rparr>,
      \<lparr>startDepth = 3 / 10, endDepth = 3 / 10, layer_zone = ROBERTSON_ZONES ! 2\<rparr>]"
  using three_points_zones by (simp add: spec_layers_def three_points_sorted run_layer_def)

lemma mergeLayers_three_points:
  "mergeLayers three_points default_minThickness
   = [\<lparr>startDepth = 0, endDepth = 3 / 10, layer_zone = ROBERTSON_ZONES ! 5\<rparr>]"
  by (simp add: mergeLayers_spec spec_layers_three_points default_minThickness_def double_fifth
        thickness_of_point [OF double_three_tenths])

lemma four_points_sorted:
  "sort_key fst (valid_points four_points)
   = [(0, ROBERTSON_ZONES ! 5), (1 / 10, ROBERTSON_ZONES ! 5),
      (1 / 2, ROBERTSON_ZONES ! 2), (1, ROBERTSON_ZONES ! 2)]"
  by (simp add: four_points_def valid_points_def)

lemma spec_layers_four_points:
  "spec_layers four_points
   = [\<lparr>startDepth = 0, endDepth = 1 / 10, layer_zone = ROBERTSON_ZONES ! 5\<rparr>,
      \<lparr>startDepth = 1 / 2, endDepth = 1, layer_zone = ROBERTSON_ZONES ! 2\<rparr>]"
  using three_points_zones by (simp add: spec_layers_def four_points_sorted run_layer_def)

lemma thickness_half_to_1:
  "layer_thickness \<lparr>startDepth = 1 / 2, endDepth = 1, layer_zone = z\<rparr> = Fin (1 / 2)"
  by (simp add: layer_thickness_def double_1 double_half nsub_def)

lemma mergeLayers_four_points:
  "mergeLayers four_points default_minThickness
   = [\<lparr>startDepth = 0, endDepth = 1 / 10, layer_zone = ROBERTSON_ZONES ! 5\<rparr>,
      \<lparr>startDepth = 1 / 2, endDepth = 1, layer_zone = ROBERTSON_ZONES ! 2\<rparr>]"
  by (simp add: mergeLayers_spec spec_layers_four_points default_minThickness_def double_fifth
        thickness_half_to_1)

text \<open>
  C3, as stated: the layers cover the interval from the least to the greatest depth, and
  each returned layer is a maximal contiguous run of same-zone points. On the three points
  sand at 0, sand at 0.1 and clay at 0.3, with the default \<open>minThickness\<close>, the maximal
  runs are \<open>[0, 0.1]\<close> of sand and \<open>[0.3, 0.3]\<close> of clay, but \<open>mergeLayers\<close> returns the
  single sand layer \<open>[0, 0.3]\<close>, which spans the clay point. On the four points sand at 0
  and 0.1 and clay at 0.5 and 1 it returns the layers \<open>[0, 0.1]\<close> and \<open>[0.5, 1]\<close>: the
  depth 0.3, between the least depth 0 and the greatest depth 1, lies in no layer.
\<close>

theorem mergeLayers_layer_spans_other_zone:
  "mergeLayers three_points default_minThickness
     = [\<lparr>startDepth = 0, endDepth = 3 / 10, layer_zone = ROBERTSON_ZONES ! 5\<rparr>]
   \<and> spec_layers three_points
     = [\<lparr>startDepth = 0, endDepth = 1 / 10, layer_zone = ROBERTSON_ZONES ! 5\<rparr>,
        \<lparr>startDepth = 3 / 10, endDepth = 3 / 10, layer_zone = ROBERTSON_ZONES ! 2\<rparr>]
   \<and> mergeLayers three_points default_minThickness \<noteq> spec_layers three_points
   \<and> \<lparr>depth = 3 / 10, point_zone = Some (ROBERTSON_ZONES ! 2)\<rparr> \<in> set three_points
   \<and> zone (ROBERTSON_ZONES ! 2) \<noteq> zone (ROBERTSON_ZONES ! 5)
   \<and> mergeLayers four_points default_minThickness
     = [\<lparr>startDepth = 0, endDepth = 1 / 10, layer_zone = ROBERTSON_ZONES ! 5\<rparr>,
        \<lparr>startDepth = 1 / 2, endDepth = 1, layer_zone = ROBERTSON_ZONES ! 2\<rparr>]
   \<and> Min (depth ` set four_points) = 0 \<and> Max (depth ` set four_points) = 1
   \<and> \<not> (\<exists>l \<in> set (mergeLayers four_points default_minThickness).
           startDepth l \<le> 3 / 10 \<and> 3 / 10 \<le> endDepth l)"
proof -
  have "\<lparr>depth = 3 / 10, point_zone = Some (ROBERTSON_ZONES ! 2)\<rparr> \<in> set three_points"
    by (simp add: three_points_def)
  moreover have "Min (depth ` set four_points) = 0 \<and> Max (depth ` set four_points) = 1"
    by (simp add: four_points_def)
  ultimately show ?thesis
    using three_points_zones
    by (simp add: mergeLayers_three_points mergeLayers_four_points spec_layers_three_points)
qed

theorem mergeLayers_ordered_cover_witness:
  "depth_ordered (mergeLayers three_points default_minThickness)
   \<and> startDepth (hd (mergeLayers three_points default_minThickness)) = Min (depth ` set three_points)
   \<and> endDepth (last (mergeLayers three_points default_minThickness)) = Max (depth ` set three_points)
   \<and> Min (depth ` set three_points) = 0 \<and> Max (depth ` set three_points) = 3 / 10
   \<and> list_all (\<lambda>p. list_ex (\<lambda>l. startDepth l \<le> fst p \<and> fst p \<le> endDepth l)
                       (mergeLayers three_points default_minThickness))
        (valid_points three_points)
   \<and> valid_points three_points \<noteq> []
   \<and> mergeLayers three_points default_minThickness
       = absorb_runs default_minThickness (spec_layers three_points)
   \<and> mergeLayers three_points 0 = spec_layers three_points"
proof -
  let ?M = "mergeLayers three_points default_minThickness"
  note T = mergeLayers_ordered_cover [of three_points default_minThickness]
  note T0 = mergeLayers_ordered_cover [of three_points 0]
  have all: "\<forall>p \<in> set three_points. point_zone p \<noteq> None"
    by (simp add: three_points_def)
  have ne: "valid_points three_points \<noteq> []"
    by (simp add: three_points_def valid_points_def)
  have mm: "Min (depth ` set three_points) = 0 \<and> Max (depth ` set three_points) = 3 / 10"
    by (simp add: three_points_def)
  have pos: "0 < default_minThickness"
    by (simp add: default_minThickness_def)
  from T have c1: "depth_ordered ?M"
    by (rule conjunct1)
  from T all have v: "fst ` set (valid_points three_points) = depth ` set three_points"
    by blast
  from T ne have "startDepth (hd ?M) = Min (fst ` set (valid_points three_points))
      \<and> endDepth (last ?M) = Max (fst ` set (valid_points three_points))"
    by blast
  then have c2: "startDepth (hd ?M) = Min (depth ` set three_points)"
    and c3: "endDepth (last ?M) = Max (depth ` set three_points)"
    by (simp_all only: v)
  from T have "\<forall>p \<in> set (valid_points three_points).
      \<exists>l \<in> set ?M. startDepth l \<le> fst p \<and> fst p \<le> endDepth l"
    by blast
  then have c4: "list_all (\<lambda>p. list_ex (\<lambda>l. startDepth l \<le> fst p \<and> fst p \<le> endDepth l) ?M)
        (valid_points three_points)"
    by (simp only: list_all_iff list_ex_iff)
  from T have "?M = (if 0 < default_minThickness
        then absorb_runs default_minThickness (spec_layers three_points)
        else spec_layers three_points)"
    by blast
  with pos have c5: "?M = absorb_runs default_minThickness (spec_layers three_points)"
    by (simp only: if_True)
  from T0 have "(0::rat) \<le> 0 \<or> (\<forall>r \<in> set (tl (spec_layers three_points)). \<not> thin 0 r)
      \<longrightarrow> mergeLayers three_points 0 = spec_layers three_points"
    by blast
  then have c6: "mergeLayers three_points 0 = spec_layers three_points"
    by simp
  from c1 c2 c3 mm c4 ne c5 c6 show ?thesis
    by blast
qed

text \<open>
  The thickness is rounded as the doubles round it. With sand at 0 and clay at 0.1 and
  0.3, the clay run is 0.19999999999999998 thick and is absorbed by the default
  \<open>minThickness\<close>; with clay at 0.05 and 0.25 it is 0.2 thick and is kept. Over the
  rationals both runs are exactly 0.2 thick.
\<close>

lemma clay_from_spec_layers:
  "0 \<le> a \<Longrightarrow> a \<le> b \<Longrightarrow>
   spec_layers (clay_from a b)
   = [\<lparr>startDepth = 0, endDepth = 0, layer_zone = ROBERTSON_ZONES ! 5\<rparr>,
      \<lparr>startDepth = a, endDepth = b, layer_zone = ROBERTSON_ZONES ! 2\<rparr>]"
  using three_points_zones
  by (simp add: spec_layers_def clay_from_def valid_points_def run_layer_def insort_is_Cons)

lemma mergeLayers_thickness_rounded:
  "mergeLayers (clay_from (1 / 10) (3 / 10)) default_minThickness
     = [\<lparr>startDepth = 0, endDepth = 3 / 10, layer_zone = ROBERTSON_ZONES ! 5\<rparr>]
   \<and> mergeLayers (clay_from (1 / 20) (1 / 4)) default_minThickness
     = [\<lparr>startDepth = 0, endDepth = 0, layer_zone = ROBERTSON_ZONES ! 5\<rparr>,
        \<lparr>startDepth = 1 / 20, endDepth = 1 / 4, layer_zone = ROBERTSON_ZONES ! 2\<rparr>]
   \<and> (3 / 10 - 1 / 10 :: rat) = 1 / 5 \<and> (1 / 4 - 1 / 20 :: rat) = 1 / 5"
proof -
  have t1: "layer_thickness \<lparr>startDepth = 1 / 10, endDepth = 3 / 10, layer_zone = ROBERTSON_ZONES ! 2\<rparr>
        = Fin (7205759403792793 / 36028797018963968)"
    by (simp only: layer_thickness_def Layer.simps double_diff_3_1)
  have t2: "layer_thickness \<lparr>startDepth = 1 / 20, endDepth = 1 / 4, layer_zone = ROBERTSON_ZONES ! 2\<rparr>
        = Fin (3602879701896397 / 18014398509481984)"
    by (simp only: layer_thickness_def Layer.simps double_diff_25_5)
  have s1: "spec_layers (clay_from (1 / 10) (3 / 10))
        = [\<lparr>startDepth = 0, endDepth = 0, layer_zone = ROBERTSON_ZONES ! 5\<rparr>,
           \<lparr>startDepth = 1 / 10, endDepth = 3 / 10, layer_zone = ROBERTSON_ZONES ! 2\<rparr>]"
    by (rule clay_from_spec_layers) simp_all
  have s2: "spec_layers (clay_from (1 / 20) (1 / 4))
        = [\<lparr>startDepth = 0, endDepth = 0, layer_zone = ROBERTSON_ZONES ! 5\<rparr>,
           \<lparr>startDepth = 1 / 20, endDepth = 1 / 4, layer_zone = ROBERTSON_ZONES ! 2\<rparr>]"
    by (rule clay_from_spec_layers) simp_all
  have m1: "mergeLayers (clay_from (1 / 10) (3 / 10)) default_minThickness
        = [\<lparr>startDepth = 0, endDepth = 3 / 10, layer_zone = ROBERTSON_ZONES ! 5\<rparr>]"
    by (simp add: mergeLayers_spec s1 default_minThickness_def double_fifth t1)
  have m2: "mergeLayers (clay_from (1 / 20) (1 / 4)) default_minThickness
        = [\<lparr>startDepth = 0, endDepth = 0, layer_zone = ROBERTSON_ZONES ! 5\<rparr>,
           \<lparr>startDepth = 1 / 20, endDepth = 1 / 4, layer_zone = ROBERTSON_ZONES ! 2\<rparr>]"
    by (simp add: mergeLayers_spec s2 default_minThickness_def double_fifth t2)
  show ?thesis
    using m1 m2 by simp
qed

section \<open>Properties of the GEF parser\<close>

lemma scan_header_None_iff:
  "scan_header ls i st = None \<longleftrightarrow> (\<forall>l \<in> set ls. \<not> is_terminator l)"
  by (induction ls arbitrary: i st) simp_all

lemma scan_header_Some:
  "\<forall>x \<in> set pre. \<not> is_terminator x \<Longrightarrow> is_terminator l \<Longrightarrow>
   scan_header (pre @ l # post) i st = Some (i + length pre + 1, foldl header_step st pre)"
  by (induction pre arbitrary: i st) simp_all

lemma gef_parseData_Nil_iff:
  "gef_parseData ls i sep cm = [] \<longleftrightarrow> (\<forall>x \<in> set (drop i ls). \<not> data_line sep cm x)"
  by (auto simp: gef_parseData_def data_line_def Let_def not_le)

lemma hasKey_append: "hasKey (xs @ ys) k \<longleftrightarrow> hasKey xs k \<or> hasKey ys k"
  by (auto simp: hasKey_def)

lemma hasKey_depth_computed: "hasKey [depth_computed] k \<longleftrightarrow> k = ''depth''"
  by (auto simp: hasKey_def depth_computed_def)

lemma gef_computeDerived_columns:
  "snd (gef_computeDerived rows cm) = derived_columns cm"
  by (simp add: gef_computeDerived_def derived_columns_def hasKey_append hasKey_depth_computed)

lemma gef_computeDerived_rows_Nil: "fst (gef_computeDerived rows cm) = [] \<longleftrightarrow> rows = []"
  by (simp add: gef_computeDerived_def)

lemma gef_parse_no_terminator:
  "(\<exists>e. gef_parse src = Inl e) \<longleftrightarrow> (\<forall>l \<in> set (text_lines src). \<not> is_terminator l)"
proof -
  have "(\<exists>e. gef_parse src = Inl e) \<longleftrightarrow> scan_header (text_lines src) 0 (empty_header, []) = None"
    by (auto simp: gef_parse_def Let_def split: option.splits prod.splits)
  then show ?thesis
    by (simp only: scan_header_None_iff)
qed

lemma gef_parse_error: "gef_parse src = Inl e \<Longrightarrow> e = NoEOH"
  by (auto simp: gef_parse_def Let_def split: option.splits prod.splits)

lemma gef_parse_header:
  assumes lines: "text_lines src = pre @ l # post"
    and pre: "\<forall>x \<in> set pre. \<not> is_terminator x"
    and l: "is_terminator l"
  shows "\<exists>f. gef_parse src = Inr f
     \<and> header f = extractMetadata (fst (header_state pre))
     \<and> columns f
         = derived_columns (buildColumnMap (snd (header_state pre)) (fst (header_state pre)))
     \<and> (data f = [] \<longleftrightarrow>
          (\<forall>x \<in> set post.
             \<not> data_line (detectSeparator (fst (header_state pre)))
                 (buildColumnMap (snd (header_state pre)) (fst (header_state pre))) x))"
proof -
  obtain hdr cols where st: "header_state pre = (hdr, cols)"
    by (cases "header_state pre")
  define cm where "cm = buildColumnMap cols hdr"
  define rows where "rows = gef_parseData (text_lines src) (Suc (length pre)) (detectSeparator hdr) cm"
  have scan: "scan_header (text_lines src) 0 (empty_header, []) = Some (length pre + 1, hdr, cols)"
    using scan_header_Some [OF pre l, of post 0 "(empty_header, [])"] st
    by (simp add: lines header_state_def)
  have "drop (Suc (length pre)) (text_lines src) = post"
    by (simp add: lines)
  then have nil: "rows = [] \<longleftrightarrow> (\<forall>x \<in> set post. \<not> data_line (detectSeparator hdr) cm x)"
    by (simp add: rows_def gef_parseData_Nil_iff)
  obtain rows' cm' where cd: "gef_computeDerived rows cm = (rows', cm')"
    by (cases "gef_computeDerived rows cm")
  have r: "rows' = [] \<longleftrightarrow> rows = []" and c: "cm' = derived_columns cm"
    using gef_computeDerived_rows_Nil [of rows cm] gef_computeDerived_columns [of rows cm] cd
    by simp_all
  have "gef_parse src = Inr \<lparr>header = extractMetadata hdr, columns = cm', data = rows'\<rparr>"
    using cd by (simp add: gef_parse_def Let_def scan rows_def cm_def)
  then show ?thesis
    using r c nil by (simp add: st cm_def)
qed

lemmas text_defs = trim_def js_ws_def is_word_def is_digit_def toUpperCase_def split_def
  split_ws_def parseInt10_def digits_value_def exponent_of_def scale10_def
  match_header_def

lemma header_only_lines: "text_lines header_only = header_lines @ ''#EOH='' # ['''']"
  by (simp add: header_only_def header_lines_def text_lines_def split_def replace_cr_def LF_def CR_def)

lemma no_terminator_lines: "text_lines no_terminator = header_lines @ ['''']"
  by (simp add: no_terminator_def header_lines_def text_lines_def split_def replace_cr_def LF_def CR_def)

lemma header_lines_no_terminator: "\<forall>x \<in> set header_lines. \<not> is_terminator x"
  by (simp add: header_lines_def is_terminator_def trim_def js_ws_def)

lemma header_lines_state:
  "header_state header_lines
   = (empty_header,
      [Some \<lparr>ci_unit = ''m'', ci_name = ''L'', ci_type = Some 1\<rparr>,
       Some \<lparr>ci_unit = ''MPa'', ci_name = ''qc'', ci_type = Some 2\<rparr>])"
  by (simp add: header_state_def header_lines_def header_step_def parseHeaderLine_def
        array_set_def text_defs)

lemma header_lines_columns:
  "map key (derived_columns
      (buildColumnMap (snd (header_state header_lines)) (fst (header_state header_lines))))
   = [''length'', ''qc'', ''depth'']"
  by (simp add: header_lines_state buildColumnMap_def GEF_COLUMN_TYPES_def empty_header_def
        derived_columns_def hasKey_def depth_computed_def)

lemma header_lines_map:
  "map key (buildColumnMap (snd (header_state header_lines)) (fst (header_state header_lines)))
   = [''length'', ''qc'']"
  by (simp add: header_lines_state buildColumnMap_def GEF_COLUMN_TYPES_def empty_header_def)

lemma header_lines_computed:
  "map computed (derived_columns
      (buildColumnMap (snd (header_state header_lines)) (fst (header_state header_lines))))
   = [False, False, True]"
  by (simp add: header_lines_state buildColumnMap_def GEF_COLUMN_TYPES_def empty_header_def
        derived_columns_def hasKey_def depth_computed_def)

lemma header_only_parse:
  "\<exists>f. gef_parse header_only = Inr f
     \<and> columns f = derived_columns
           (buildColumnMap (snd (header_state header_lines)) (fst (header_state header_lines)))
     \<and> data f = []"
proof -
  have t: "is_terminator ''#EOH=''"
    by (simp add: is_terminator_def trim_def js_ws_def)
  have post: "\<forall>x \<in> set ['''']. \<not> data_line sep cm x" for sep cm
    by (simp add: data_line_def skipped_line_def trim_def)
  from gef_parse_header [OF header_only_lines header_lines_no_terminator t] post
  show ?thesis by blast
qed

text \<open>
  C6, as stated: with a terminator and no data rows, the record has the column map parsed
  from the header. For the text of the two header lines \<open>#COLUMNINFO= 1, m, L, 1\<close> and
  \<open>#COLUMNINFO= 2, MPa, qc, 2\<close> and the terminator, the column map parsed from the header
  has the keys \<open>length\<close> and \<open>qc\<close>, but the columns of the record are three: the
  descriptor of a computed \<open>depth\<close> column is appended, although there is no row to
  compute a depth for.
\<close>

theorem gef_parse_appends_derived_column:
  "map key (case gef_parse header_only of Inl e \<Rightarrow> [] | Inr f \<Rightarrow> columns f)
     = [''length'', ''qc'', ''depth'']
   \<and> map computed (case gef_parse header_only of Inl e \<Rightarrow> [] | Inr f \<Rightarrow> columns f)
     = [False, False, True]
   \<and> (case gef_parse header_only of Inl e \<Rightarrow> None | Inr f \<Rightarrow> Some (data f)) = Some []
   \<and> text_lines header_only = header_lines @ [''#EOH='', '''']
   \<and> map key (buildColumnMap (snd (header_state header_lines)) (fst (header_state header_lines)))
     = [''length'', ''qc'']"
proof -
  from header_only_parse obtain f where "gef_parse header_only = Inr f"
    and "columns f = derived_columns
           (buildColumnMap (snd (header_state header_lines)) (fst (header_state header_lines)))"
    and "data f = []"
    by blast
  then show ?thesis
    using header_lines_columns header_lines_computed header_lines_map header_only_lines
    by simp
qed

text \<open>
  C6, amended. The GEF parser fails, with the error for a missing terminator, exactly when
  no line of the text is \<open>#EOH\<close> or \<open>#EOH=\<close> once trimmed. When there is such a line, it
  returns a record whose columns are the column map built from the header lines before the
  first terminator, followed by the descriptors of the derived columns that this column map
  calls for (\<open>depth\<close> when it has \<open>length\<close> and no \<open>depth\<close>, \<open>rf\<close> when it has \<open>qc\<close> and
  \<open>fs\<close> and no \<open>rf\<close>), and the record has no data rows exactly when no line after the
  terminator is a data line.
\<close>

theorem gef_parse_terminator:
  "((\<exists>e. gef_parse src = Inl e) \<longleftrightarrow> (\<forall>l \<in> set (text_lines src). \<not> is_terminator l))
   \<and> (\<forall>e. gef_parse src = Inl e \<longrightarrow> e = NoEOH)
   \<and> (\<forall>pre l post.
         text_lines src = pre @ l # post
         \<and> (\<forall>x \<in> set pre. \<not> is_terminator x) \<and> is_terminator l
         \<longrightarrow> (\<exists>f. gef_parse src = Inr f
                \<and> header f = extractMetadata (fst (header_state pre))
                \<and> columns f
                    = derived_columns
                        (buildColumnMap (snd (header_state pre)) (fst (header_state pre)))
                \<and> (data f = [] \<longleftrightarrow>
                     (\<forall>x \<in> set post.
                        \<not> data_line (detectSeparator (fst (header_state pre)))
                            (buildColumnMap (snd (header_state pre)) (fst (header_state pre)))
                            x))))"
  using gef_parse_no_terminator [of src] gef_parse_error [of src] gef_parse_header [of src]
  by blast

theorem gef_parse_terminator_witness:
  "(\<exists>f. gef_parse header_only = Inr f \<and> data f = []
        \<and> map key (columns f) = [''length'', ''qc'', ''depth''])
   \<and> gef_parse no_terminator = Inl NoEOH"
proof -
  have t: "is_terminator ''#EOH=''"
    by (simp add: is_terminator_def trim_def js_ws_def)
  have post: "\<forall>x \<in> set ['''']. \<not> data_line sep cm x" for sep cm
    by (simp add: data_line_def skipped_line_def trim_def)
  have "\<exists>f. gef_parse header_only = Inr f
      \<and> columns f = derived_columns
            (buildColumnMap (snd (header_state header_lines)) (fst (header_state header_lines)))
      \<and> data f = []"
    using gef_parse_terminator [of header_only] header_only_lines header_lines_no_terminator t post
    by blast
  then have a: "\<exists>f. gef_parse header_only = Inr f \<and> data f = []
      \<and> map key (columns f) = [''length'', ''qc'', ''depth'']"
    using header_lines_columns by auto
  have "\<forall>l \<in> set (text_lines no_terminator). \<not> is_terminator l"
    using header_lines_no_terminator
    by (simp add: no_terminator_lines is_terminator_def trim_def)
  then have "gef_parse no_terminator = Inl NoEOH"
    using gef_parse_terminator [of no_terminator] by blast
  with a show ?thesis by blast
qed

section \<open>Rows of a parsed record and the classified points\<close>

lemma round64_m9999: "round64 (- 9999) = - 9999"
  by code_simp

lemma double_m9999: "double (- 9999) = Fin (- 9999)"
  by (rule double_small [THEN trans]) (simp_all add: round64_m9999)

lemma parseFloat_half: "parseFloat ''0.50'' = Fin (1 / 2)"
  by (simp add: parseFloat_def text_defs double_half)

lemma parseFloat_m9999: "parseFloat ''-9999'' = Fin (- 9999)"
  by (simp add: parseFloat_def text_defs double_m9999)

lemma void_length_lines:
  "text_lines void_length
   = [''#COLUMNINFO= 1, m, L, 1'', ''#COLUMNVOID= 1, -9999'', ''#EOH='', ''0.50'', ''-9999'', '''']"
  by (simp add: void_length_def text_lines_def split_def replace_cr_def LF_def CR_def)

lemma void_length_header:
  "scan_header
     [''#COLUMNINFO= 1, m, L, 1'', ''#COLUMNVOID= 1, -9999'', ''#EOH='', ''0.50'', ''-9999'', '''']
     0 (empty_header, [])
   = Some (3, \<lparr>hfields = Map.empty, COLUMNVOID = [0 \<mapsto> Fin (- 9999)], raw_columns = []\<rparr>,
           [Some \<lparr>ci_unit = ''m'', ci_name = ''L'', ci_type = Some 1\<rparr>])"
proof -
  have "parseHeaderLine (empty_header, []) ''COLUMNINFO'' ''1, m, L, 1''
        = (empty_header, [Some \<lparr>ci_unit = ''m'', ci_name = ''L'', ci_type = Some 1\<rparr>])"
    by (simp add: parseHeaderLine_def array_set_def text_defs)
  moreover have "parseHeaderLine
        (empty_header, [Some \<lparr>ci_unit = ''m'', ci_name = ''L'', ci_type = Some 1\<rparr>])
        ''COLUMNVOID'' ''1, -9999''
      = (\<lparr>hfields = Map.empty, COLUMNVOID = [0 \<mapsto> parseFloat ''-9999''], raw_columns = []\<rparr>,
         [Some \<lparr>ci_unit = ''m'', ci_name = ''L'', ci_type = Some 1\<rparr>])"
    by (simp add: parseHeaderLine_def empty_header_def text_defs)
  moreover have "header_step st ''#COLUMNINFO= 1, m, L, 1''
        = parseHeaderLine st ''COLUMNINFO'' ''1, m, L, 1''" for st
    by (simp add: header_step_def text_defs)
  moreover have "header_step st ''#COLUMNVOID= 1, -9999''
        = parseHeaderLine st ''COLUMNVOID'' ''1, -9999''" for st
    by (simp add: header_step_def text_defs)
  ultimately show ?thesis
    by (simp add: is_terminator_def trim_def js_ws_def parseFloat_m9999)
qed

lemma void_length_columns:
  "buildColumnMap [Some \<lparr>ci_unit = ''m'', ci_name = ''L'', ci_type = Some 1\<rparr>]
     \<lparr>hfields = Map.empty, COLUMNVOID = [0 \<mapsto> Fin (- 9999)], raw_columns = []\<rparr>
   = [\<lparr>index = Some 0, key = ''length'', label = ''Sondeerlengte'', unit = ''m'',
       col_type = Some 1, voidValue = Some (Fin (- 9999)), computed = False\<rparr>]"
  by (simp add: buildColumnMap_def GEF_COLUMN_TYPES_def)

lemma void_length_rows:
  "gef_parseData
     [''#COLUMNINFO= 1, m, L, 1'', ''#COLUMNVOID= 1, -9999'', ''#EOH='', ''0.50'', ''-9999'', '''']
     3 Whitespace
     [\<lparr>index = Some 0, key = ''length'', label = ''Sondeerlengte'', unit = ''m'',
       col_type = Some 1, voidValue = Some (Fin (- 9999)), computed = False\<rparr>]
   = [empty_parsed_row(''length'' := Num (Fin (1 / 2))), empty_parsed_row(''length'' := Null)]"
proof -
  have "trim ''0.50'' = ''0.50''" "trim ''-9999'' = ''-9999''" "trim [] = []"
    by (simp_all add: trim_def js_ws_def)
  moreover have "split_ws ''0.50'' = [''0.50'']" "split_ws ''-9999'' = [''-9999'']"
    by (simp_all add: split_ws_def js_ws_def)
  ultimately show ?thesis
    by (simp add: gef_parseData_def skipped_line_def gef_row_def gef_cell_def strict_eq_def
          parseFloat_half parseFloat_m9999 Let_def)
qed

lemma void_length_separator:
  "detectSeparator \<lparr>hfields = Map.empty, COLUMNVOID = [0 \<mapsto> Fin (- 9999)], raw_columns = []\<rparr>
   = Whitespace"
  by (simp add: detectSeparator_def)

lemma void_length_metadata:
  "extractMetadata \<lparr>hfields = Map.empty, COLUMNVOID = [0 \<mapsto> Fin (- 9999)], raw_columns = []\<rparr>
   = [''name'' \<mapsto> ''Onbekend'']"
  by (simp add: extractMetadata_def set_if_def field_def meta_date_def meta_surfaceLevel_def
        meta_xy_def meta_name_def)

lemma void_length_derived:
  "gef_computeDerived
     [empty_parsed_row(''length'' := Num (Fin (1 / 2))), empty_parsed_row(''length'' := Null)]
     [\<lparr>index = Some 0, key = ''length'', label = ''Sondeerlengte'', unit = ''m'',
       col_type = Some 1, voidValue = Some (Fin (- 9999)), computed = False\<rparr>]
   = ([empty_parsed_row(''length'' := Num (Fin (1 / 2)), ''depth'' := Num (Fin (- (1 / 2)))),
       empty_parsed_row(''length'' := Null)],
      [\<lparr>index = Some 0, key = ''length'', label = ''Sondeerlengte'', unit = ''m'',
        col_type = Some 1, voidValue = Some (Fin (- 9999)), computed = False\<rparr>,
       depth_computed])"
  by (simp add: gef_computeDerived_def hasKey_def derive_depth_def depth_computed_def)

lemma void_length_parse: "gef_parse void_length = Inr void_length_record"
  unfolding gef_parse_def Let_def void_length_lines void_length_header void_length_record_def
  by (simp only: option.case prod.case void_length_columns void_length_separator
        void_length_rows void_length_derived void_length_metadata)

text \<open>
  C7, at a failing input. A GEF text with a length column and no depth column, whose
  second data line holds the void value: the record lists the derived \<open>depth\<close> column, the
  first row has a \<open>depth\<close> entry, and the second row, whose length is \<open>null\<close>, has none. The
  loop that derives \<open>depth\<close> has no \<open>else\<close> branch; the loop that derives \<open>rf\<close>, next to
  it, stores \<open>null\<close> in that case.
\<close>

theorem gef_parse_row_without_depth:
  "gef_parse void_length = Inr void_length_record
   \<and> map key (columns void_length_record) = [''length'', ''depth'']
   \<and> map (\<lambda>r. (r ''length'', r ''depth'')) (data void_length_record)
       = [(Num (Fin (1 / 2)), Num (Fin (- (1 / 2)))), (Null, Undefined)]
   \<and> list_ex (\<lambda>r. list_ex (\<lambda>c. r (key c) = Undefined) (columns void_length_record))
       (data void_length_record)"
  by (simp add: void_length_parse void_length_record_def empty_parsed_row_def depth_computed_def)

text \<open>
  No row that passes the filter of \<open>classifyDataset\<close> has a depth indicator that is not a
  number, so \<open>to_number\<close> never meets \<open>undefined\<close> there.
\<close>

lemma classifyDataset_depths_numeric:
  "has_depth_indicator r \<Longrightarrow>
   \<exists>x. (if r ''depth'' \<noteq> Undefined then r ''depth'' else r ''length'') = Num x"
  by (cases "r ''depth''"; cases "r ''length''")
     (simp_all add: has_depth_indicator_def depth_indicator_def)

text \<open>
  C8, at a failing input. Of the two rows, the second has no \<open>depth\<close> entry and the
  length \<open>-3\<close>: \<open>classifyDataset\<close> emits the depth \<open>-3\<close>, not its absolute value 3
  (\<open>Math.abs\<close> is applied to \<open>row.depth\<close> only). The first has a \<open>null\<close> depth and the
  length 5: it is dropped, the fall-back to \<open>length\<close> being taken only when \<open>depth\<close> is
  \<open>undefined\<close>.
\<close>

theorem classifyDataset_length_fallback:
  "classifyDataset two_rows = [\<lparr>depth = - 3, point_zone = Some (ROBERTSON_ZONES ! 3)\<rparr>]
   \<and> map (\<lambda>r. (r ''depth'', r ''length'')) two_rows = [(Null, Num 5), (Undefined, Num (- 3))]
   \<and> zone (ROBERTSON_ZONES ! 3) = 4
   \<and> \<bar>- 3 :: rat\<bar> \<noteq> - 3"
  by (simp add: two_rows_def classifyDataset_def classifyRow_def has_depth_indicator_def
        depth_indicator_def empty_row_def Math_abs_def ROBERTSON_ZONES_nth_zone)

section \<open>Properties of the BRO parser\<close>




























end
